theory Spec2Isabelle
  imports
    Main
    "HOL-Library.Char_ord"
    "HOL-Library.List_Lexorder"
    "HOL-Library.Sublist"
    "HOL-Library.AList"
begin

section \<open>Python values used by \<^verbatim>\<open>pano-tui.py\<close>\<close>

text \<open>
  The \<^verbatim>\<open>.text\<close> attribute of an ElementTree element is a \<^verbatim>\<open>str\<close> or \<^verbatim>\<open>None\<close>.
  Serials, hostnames, job identifiers and versions are all read from such attributes, so
  they have this type. Strings are byte sequences (UTF-8); their order is the
  lexicographic order of the bytes, which on UTF-8 is Python's order by code point.
\<close>

type_synonym pystr = "string option"

definition fmt :: "pystr \<Rightarrow> string" where
  \<comment> \<open>what an f-string prints for \<^verbatim>\<open>{x}\<close>\<close>
  "fmt t = (case t of None \<Rightarrow> ''None'' | Some s \<Rightarrow> s)"

definition truthy :: "pystr \<Rightarrow> bool" where
  \<comment> \<open>\<^verbatim>\<open>if x:\<close> for a value that is a \<^verbatim>\<open>str\<close> or \<^verbatim>\<open>None\<close>\<close>
  "truthy t = (case t of None \<Rightarrow> False | Some s \<Rightarrow> s \<noteq> [])"

definition lower_char :: "char \<Rightarrow> char" where
  "lower_char c =
     (if CHR ''A'' \<le> c \<and> c \<le> CHR ''Z'' then char_of (of_char c + (32::nat)) else c)"

definition lower :: "string \<Rightarrow> string" where
  \<comment> \<open>\<^verbatim>\<open>str.lower()\<close> on the ASCII letters; the only use compares with an ASCII needle\<close>
  "lower s = map lower_char s"

definition digit_char :: "nat \<Rightarrow> char" where
  "digit_char d = char_of (48 + d)"

function str_nat :: "nat \<Rightarrow> string" where
  \<comment> \<open>what an f-string prints for a non-negative \<^verbatim>\<open>int\<close>\<close>
  "str_nat n = (if n < 10 then [digit_char n] else str_nat (n div 10) @ [digit_char (n mod 10)])"
  by pat_completeness auto
termination
  by (relation "measure (\<lambda>n. n)") auto

declare str_nat.simps [simp del]

datatype exn = ParseError | KeyError string | AttributeError | TypeError | MarkupError

section \<open>ElementTree documents and the paths the program uses\<close>

datatype xml =
  Element (tag: string) (attrib: "(string \<times> string) list") (text_of: pystr) (children: "xml list")

fun findall_path :: "string list \<Rightarrow> xml \<Rightarrow> xml list" where
  \<comment> \<open>\<^verbatim>\<open>e.findall('./a/b/c')\<close>, the path given as its list of tags\<close>
  "findall_path [] e = [e]"
| "findall_path (t # ts) e =
     concat (map (findall_path ts) (filter (\<lambda>c. tag c = t) (children e)))"

definition find_path :: "string list \<Rightarrow> xml \<Rightarrow> xml option" where
  \<comment> \<open>\<^verbatim>\<open>e.find('./a/b/c')\<close>: the first match in document order, or \<^verbatim>\<open>None\<close>\<close>
  "find_path p e = (case findall_path p e of [] \<Rightarrow> None | x # _ \<Rightarrow> Some x)"

fun iter_below :: "xml \<Rightarrow> xml list" where
  \<comment> \<open>every element strictly below \<open>e\<close>, in document order\<close>
  "iter_below (Element t a x cs) = concat (map (\<lambda>c. c # iter_below c) cs)"

definition find_descendant :: "string \<Rightarrow> xml \<Rightarrow> xml option" where
  \<comment> \<open>\<^verbatim>\<open>e.find('.//t')\<close>\<close>
  "find_descendant t e = List.find (\<lambda>c. tag c = t) (iter_below e)"

section \<open>Requests and responses\<close>

datatype request_exception =
    HTTPError nat string    \<comment> \<open>raised by \<^verbatim>\<open>raise_for_status\<close>: the status code and the message\<close>
  | RequestException string \<comment> \<open>any other \<^verbatim>\<open>requests\<close> failure (connection, timeout, ...),
                                with its message\<close>

fun exception_text :: "request_exception \<Rightarrow> string" where
  \<comment> \<open>what an f-string prints for \<^verbatim>\<open>{e}\<close>\<close>
  "exception_text (HTTPError code msg) = msg"
| "exception_text (RequestException msg) = msg"

record request =
  url :: string
  ptype :: string
  cmd :: string
  target :: "pystr option"
  auth :: "string \<times> string"

text \<open>
  A response carries its status code, the message that \<^verbatim>\<open>raise_for_status\<close> gives its
  \<^verbatim>\<open>HTTPError\<close> when the code is an error, and its body. The body is kept as what
  \<^verbatim>\<open>ET.fromstring(response.text)\<close> makes of it: \<open>Some root\<close>, or \<open>None\<close> when the text is
  not well-formed XML and \<^verbatim>\<open>fromstring\<close> raises \<^verbatim>\<open>ParseError\<close>.
\<close>

record response =
  status_code :: nat
  error_text :: string
  document :: "xml option"

text \<open>
  What \<^verbatim>\<open>run_api_request\<close> does with a request is the manager's choice: the call raises or
  returns a response. The handlers that send one request for each device take the
  manager as a function \<open>net\<close> from the request to this result; the job tracker, which
  sends the same request again and again, takes the results of its successive polls as a
  list.
\<close>

datatype api_result = Raises request_exception | Returns response

definition raise_for_status :: "response \<Rightarrow> request_exception option" where
  "raise_for_status r =
     (if 400 \<le> status_code r \<and> status_code r < 600
      then Some (HTTPError (status_code r) (error_text r))
      else None)"

definition checked :: "api_result \<Rightarrow> request_exception + response" where
  \<comment> \<open>\<^verbatim>\<open>response = run_api_request(...); response.raise_for_status()\<close>\<close>
  "checked r =
     (case r of
        Raises e \<Rightarrow> Inl e
      | Returns resp \<Rightarrow>
          (case raise_for_status resp of Some e \<Rightarrow> Inl e | None \<Rightarrow> Inr resp))"

section \<open>The command catalogue\<close>

record command_info =
  cmd_template :: string
  generates_job :: "bool option"

definition URL_CHOICES :: "(string \<times> command_info) list" where
  "URL_CHOICES =
    [(''Software Version Check'',
        \<lparr>cmd_template =
           ''<request><system><software><check></check></software></system></request>'',
         generates_job = None\<rparr>),
     (''Download Version'',
        \<lparr>cmd_template =
           ''<request><system><software><download><version>{version}</version></download></software></system></request>'',
         generates_job = Some True\<rparr>),
     (''Install Version'',
        \<lparr>cmd_template =
           ''<request><system><software><install><version>{version}</version></install></software></system></request>'',
         generates_job = Some True\<rparr>),
     (''Reboot'',
        \<lparr>cmd_template = ''<request><restart><system></system></restart></request>'',
         generates_job = None\<rparr>)]"

function format_version :: "string \<Rightarrow> string \<Rightarrow> string" where
  \<comment> \<open>\<^verbatim>\<open>template.format(version=v)\<close> for the catalogue's templates, whose only
      placeholder is \<^verbatim>\<open>{version}\<close>\<close>
  "format_version [] v = []"
| "format_version (c # cs) v =
     (if take 9 (c # cs) = ''{version}'' then v @ format_version (drop 8 cs) v
      else c # format_version cs v)"
  by pat_completeness auto
termination
  by (relation "measure (\<lambda>(s, v). length s)") auto

section \<open>The log and the selection list\<close>

text \<open>
  One constructor for each \<^verbatim>\<open>log.write\<close> of the handlers, named after the line it writes
  and carrying the values that the line interpolates, in the order of the format string.
  \<open>render\<close> gives the string that is passed to \<^verbatim>\<open>log.write\<close>.
\<close>

datatype log_line =
    LogIpRequired
  | LogFetching string
  | LogAuthFailed
  | LogApiError string
  | LogFoundDevices nat
  | LogForbidden
  | LogHttpError request_exception
  | LogConnectionError request_exception
  | LogSelectOneDevice
  | LogRunningCheck string
  | LogNoVersions
  | LogFoundVersions nat
  | LogNoStatus string string
  | LogJobFinishedOk string string
  | LogJobFinishedFail string string string
  | LogJobProgress string string string
  | LogJobOngoing string string string
  | LogJobCheckError string string request_exception
  | LogNoDevices
  | LogStarting string nat
  | LogRunning string string
  | LogJobEnqueued string string
  | LogNoJobId string string
  | LogSuccess nat
  | LogErrorFor string request_exception
  | LogCredentialsRequired
  | LogSelectVersion

definition check_mark :: string where
  \<comment> \<open>U+2705 in UTF-8\<close>
  "check_mark = [CHR 0xE2, CHR 0x9C, CHR 0x85]"

definition cross_mark :: string where
  \<comment> \<open>U+274C in UTF-8\<close>
  "cross_mark = [CHR 0xE2, CHR 0x9D, CHR 0x8C]"

definition quoted :: "string \<Rightarrow> string" where
  \<comment> \<open>\<^verbatim>\<open>'{x}'\<close>\<close>
  "quoted s = [CHR 0x27] @ s @ [CHR 0x27]"

fun render :: "log_line \<Rightarrow> string" where
  "render LogIpRequired = ''[red]Error: Panorama IP is required.[/red]''"
| "render (LogFetching pano_ip) = ''Fetching devices from '' @ pano_ip @ ''...''"
| "render LogAuthFailed =
     ''[red]API Error: Authentication failed. Please check your username and password.[/red]''"
| "render (LogApiError error_msg) = ''[red]API Error: '' @ error_msg @ ''[/red]''"
| "render (LogFoundDevices n) =
     ''[green]Success! Found '' @ str_nat n @ '' connected devices.[/green]''"
| "render LogForbidden =
     ''[red]Connection Error: Received status 403 Forbidden. Please check your username and password.[/red]''"
| "render (LogHttpError e) = ''[red]HTTP Error: '' @ exception_text e @ ''[/red]''"
| "render (LogConnectionError e) = ''[red]Connection Error: '' @ exception_text e @ ''[/red]''"
| "render LogSelectOneDevice =
     ''[red]Error: Please select one device to check for versions.[/red]''"
| "render (LogRunningCheck hostname) =
     ''Running Software Version Check on '' @ hostname @ ''...''"
| "render LogNoVersions = ''[yellow]Warning: No software versions found.[/yellow]''"
| "render (LogFoundVersions n) =
     ''[green]Success! Found '' @ str_nat n @ '' versions. Dropdown populated.[/green]''"
| "render (LogNoStatus job_id hostname) =
     ''[yellow]Warning: Could not determine status for job '' @ job_id @ '' on '' @ hostname
       @ ''.[/yellow]''"
| "render (LogJobFinishedOk job_id hostname) =
     ''[green]'' @ check_mark @ '' Job '' @ job_id @ '' on '' @ hostname
       @ '' FINISHED successfully.[/green]''"
| "render (LogJobFinishedFail job_id hostname details) =
     ''[red]'' @ cross_mark @ '' Job '' @ job_id @ '' on '' @ hostname
       @ '' FINISHED with failure.[/red]'' @ [CHR 0x0A] @ details"
| "render (LogJobProgress job_id hostname progress) =
     ''  -> Job '' @ job_id @ '' on '' @ hostname @ '' is downloading... '' @ progress
       @ ''% complete.''"
| "render (LogJobOngoing job_id hostname status) =
     ''  -> Job '' @ job_id @ '' on '' @ hostname @ '' is ongoing. Status: '' @ status"
| "render (LogJobCheckError job_id hostname e) =
     ''[red]'' @ cross_mark @ '' Error checking job '' @ job_id @ '' on '' @ hostname @ '': ''
       @ exception_text e @ ''[/red]''"
| "render LogNoDevices = ''[red]Error: No devices selected.[/red]''"
| "render (LogStarting command_name n) =
     [CHR 0x0A] @ ''--- Starting '' @ quoted command_name @ '' on '' @ str_nat n
       @ '' device(s) ---''"
| "render (LogRunning command_name hostname) =
     ''--- Running '' @ quoted command_name @ '' on '' @ hostname @ '' ---''"
| "render (LogJobEnqueued job_id hostname) =
     ''Job enqueued (ID: '' @ job_id @ '') on '' @ hostname @ ''. Monitoring...''"
| "render (LogNoJobId command_name hostname) =
     ''[red]'' @ cross_mark @ '' Error: Command '' @ quoted command_name
       @ '' did not return a job ID for '' @ hostname @ ''.[/red]''"
| "render (LogSuccess code) =
     ''[green]'' @ check_mark @ '' Success (Status Code: '' @ str_nat code @ '')[/green]''"
| "render (LogErrorFor hostname e) =
     ''[red]'' @ cross_mark @ '' Error for '' @ hostname @ '': '' @ exception_text e
       @ ''[/red]''"
| "render LogCredentialsRequired = ''[red]Error: Username and Password are required.[/red]''"
| "render LogSelectVersion =
     ''[red]Error: Please run a version check and select a version first.[/red]''"

text \<open>
  The log is a \<^verbatim>\<open>RichLog(markup=True)\<close> and the device list holds \<^verbatim>\<open>Selection\<close> objects: both
  read the string they are given as console markup, and both raise \<^verbatim>\<open>MarkupError\<close> on a
  string the markup parser refuses. The parser belongs to the widget library, which is
  not part of the program, so it is a parameter of the handlers:
  \<^item> \<open>log_accepts s\<close>: \<^verbatim>\<open>log.write(s)\<close> writes the line (it raises \<^verbatim>\<open>MarkupError\<close>
    otherwise);
  \<^item> \<open>selection_prompt s\<close>: the text of \<^verbatim>\<open>Selection(s, v).prompt\<close>, the label as the list
    shows it, or \<open>None\<close> when the constructor raises \<^verbatim>\<open>MarkupError\<close>.
\<close>

record textual =
  log_accepts :: "string \<Rightarrow> bool"
  selection_prompt :: "string \<Rightarrow> string option"

record selection =
  prompt :: string
  sel_value :: pystr

datatype select_value = BLANK | Chosen pystr

datatype worker =
    FetchDevices "string \<times> string"
  | RunVersionCheck "string \<times> string"
  | RunExecuteCommand "string \<times> string" string pystr
  | TrackJobProgress "string \<times> string" pystr string

datatype button = Fetch | RunCheckVersions | RunDownload | RunInstall | RunReboot

section \<open>The application state\<close>

text \<open>
  The widgets and attributes the handlers read and write, with two traces added: the workers
  handed to \<^verbatim>\<open>run_worker\<close> and the requests handed to \<^verbatim>\<open>run_api_request\<close>, both in order.
  \<open>output_log\<close> holds the lines that were written.
\<close>

record tui =
  pano_ip :: string
  username :: string
  password :: string
  serial_to_hostname :: "(pystr \<times> pystr) list"
  device_list :: "selection list"
  selected :: "pystr list"
  version_options :: "pystr list"
  version_disabled :: bool
  version_value :: select_value
  output_log :: "log_line list"
  workers :: "worker list"
  requests_sent :: "request list"

text \<open>How a coroutine ends: it returns, or an exception it does not catch leaves it.
  \<open>Polling\<close> is for the job tracker: the poll responses seen so far have not ended its loop.\<close>

datatype exit = Returned | Raised exn | Polling

definition writable :: "textual \<Rightarrow> log_line \<Rightarrow> bool" where
  "writable lib l = log_accepts lib (render l)"

definition logged :: "log_line \<Rightarrow> tui \<Rightarrow> tui" where
  "logged l st = st\<lparr>output_log := output_log st @ [l]\<rparr>"

definition log_write :: "textual \<Rightarrow> log_line \<Rightarrow> tui \<Rightarrow> tui option" where
  \<comment> \<open>\<^verbatim>\<open>log.write(...)\<close>; \<open>None\<close> is the \<^verbatim>\<open>MarkupError\<close>, which leaves the log as it was\<close>
  "log_write lib l st = (if writable lib l then Some (logged l st) else None)"

definition write_last :: "textual \<Rightarrow> log_line \<Rightarrow> tui \<Rightarrow> exit \<times> tui" where
  \<comment> \<open>a \<^verbatim>\<open>log.write(...)\<close> after which the coroutine returns\<close>
  "write_last lib l st =
     (case log_write lib l st of
        None \<Rightarrow> (Raised MarkupError, st)
      | Some st' \<Rightarrow> (Returned, st'))"

definition write_break :: "textual \<Rightarrow> log_line \<Rightarrow> tui \<Rightarrow> exit option \<times> tui" where
  \<comment> \<open>in a loop body: a \<^verbatim>\<open>log.write(...)\<close> followed by \<^verbatim>\<open>break\<close>, after which the
      coroutine returns\<close>
  "write_break lib l st =
     (case log_write lib l st of
        None \<Rightarrow> (Some (Raised MarkupError), st)
      | Some st' \<Rightarrow> (Some Returned, st'))"

definition write_next :: "textual \<Rightarrow> log_line \<Rightarrow> tui \<Rightarrow> exit option \<times> tui" where
  \<comment> \<open>in a loop body: a \<^verbatim>\<open>log.write(...)\<close> that ends the pass; \<open>None\<close>: the loop goes on\<close>
  "write_next lib l st =
     (case log_write lib l st of
        None \<Rightarrow> (Some (Raised MarkupError), st)
      | Some st' \<Rightarrow> (None, st'))"

definition run_worker :: "worker \<Rightarrow> tui \<Rightarrow> tui" where
  "run_worker w st = st\<lparr>workers := workers st @ [w]\<rparr>"

definition sent :: "request \<Rightarrow> tui \<Rightarrow> tui" where
  "sent r st = st\<lparr>requests_sent := requests_sent st @ [r]\<rparr>"

definition hostname_of :: "tui \<Rightarrow> pystr \<Rightarrow> pystr" where
  \<comment> \<open>\<^verbatim>\<open>self.serial_to_hostname.get(serial, serial)\<close>\<close>
  "hostname_of st serial =
     (case map_of (serial_to_hostname st) serial of None \<Rightarrow> serial | Some h \<Rightarrow> h)"

definition base_url :: "tui \<Rightarrow> string" where
  "base_url st = ''https://'' @ pano_ip st @ ''/api/''"

section \<open>\<^verbatim>\<open>fetch_devices\<close>\<close>

definition fetch_devices_except :: "request_exception \<Rightarrow> log_line" where
  \<comment> \<open>the line of the two \<^verbatim>\<open>except\<close> clauses, \<^verbatim>\<open>HTTPError\<close> first\<close>
  "fetch_devices_except e =
     (case e of
        HTTPError code msg \<Rightarrow> if code = 403 then LogForbidden else LogHttpError e
      | RequestException msg \<Rightarrow> LogConnectionError e)"

definition make_selection :: "textual \<Rightarrow> pystr \<Rightarrow> pystr \<Rightarrow> selection option" where
  \<comment> \<open>\<^verbatim>\<open>Selection(f"{hostname} ({serial})", serial)\<close>; \<open>None\<close> is the \<^verbatim>\<open>MarkupError\<close>\<close>
  "make_selection lib hostname serial =
     (case selection_prompt lib (fmt hostname @ '' ('' @ fmt serial @ '')'') of
        None \<Rightarrow> None
      | Some label \<Rightarrow> Some \<lparr>prompt = label, sel_value = serial\<rparr>)"

fun collect_entries ::
  "textual \<Rightarrow> xml list \<Rightarrow> (pystr \<times> pystr) list \<Rightarrow> selection list
     \<Rightarrow> exn option \<times> (pystr \<times> pystr) list \<times> selection list" where
  \<comment> \<open>the loop over \<^verbatim>\<open>root.findall("./result/devices/entry")\<close>: the exception that left
      it, if any, the dictionary and the options\<close>
  "collect_entries lib [] d options = (None, d, options)"
| "collect_entries lib (entry # es) d options =
     (case find_path [''hostname''] entry of
        None \<Rightarrow> collect_entries lib es d options
      | Some hostname_node \<Rightarrow>
          (case find_path [''serial''] entry of
             None \<Rightarrow> collect_entries lib es d options
           | Some serial_node \<Rightarrow>
               (case make_selection lib (text_of hostname_node) (text_of serial_node) of
                  None \<Rightarrow>
                    (Some MarkupError,
                     AList.update (text_of serial_node) (text_of hostname_node) d, options)
                | Some sel \<Rightarrow>
                    collect_entries lib es
                      (AList.update (text_of serial_node) (text_of hostname_node) d)
                      (options @ [sel]))))"

definition devices_request :: "tui \<Rightarrow> string \<times> string \<Rightarrow> request" where
  \<comment> \<open>\<^verbatim>\<open>base_url\<close>, \<^verbatim>\<open>payload\<close> and \<^verbatim>\<open>auth\<close> of the call in \<^verbatim>\<open>fetch_devices\<close>\<close>
  "devices_request st a =
     \<lparr>url = base_url st, ptype = ''op'',
      cmd = ''<show><devices><connected></connected></devices></show>'',
      target = None, auth = a\<rparr>"

definition fetch_devices ::
  "textual \<Rightarrow> (request \<Rightarrow> api_result) \<Rightarrow> tui \<Rightarrow> string \<times> string \<Rightarrow> exit \<times> tui" where
  "fetch_devices lib net st0 a =
    (let st = st0\<lparr>device_list := [], selected := [], serial_to_hostname := []\<rparr> in
     if pano_ip st = [] then write_last lib LogIpRequired st
     else
      (case log_write lib (LogFetching (pano_ip st)) st of
         None \<Rightarrow> (Raised MarkupError, st)
       | Some st \<Rightarrow>
          (let req = devices_request st a;
               st = sent req st
           in (case checked (net req) of
                 Inl e \<Rightarrow> write_last lib (fetch_devices_except e) st
               | Inr resp \<Rightarrow>
                  (case document resp of
                     None \<Rightarrow> (Raised ParseError, st)
                   | Some root \<Rightarrow>
                      (case map_of (attrib root) ''status'' of
                         None \<Rightarrow> (Raised (KeyError ''status''), st)
                       | Some status \<Rightarrow>
                          if status = ''error'' then
                            (case (case find_descendant ''msg'' root of
                                     None \<Rightarrow> Some ''Unknown API error''
                                   | Some msg_node \<Rightarrow> text_of msg_node) of
                               None \<Rightarrow> (Raised AttributeError, st)
                             | Some error_msg \<Rightarrow>
                                 if sublist ''authentication failed'' (lower error_msg)
                                 then write_last lib LogAuthFailed st
                                 else write_last lib (LogApiError error_msg) st)
                          else
                            (case collect_entries lib
                                    (findall_path [''result'', ''devices'', ''entry''] root)
                                    (serial_to_hostname st) [] of
                               (Some e, d, options) \<Rightarrow>
                                 (Raised e, st\<lparr>serial_to_hostname := d\<rparr>)
                             | (None, d, options) \<Rightarrow>
                                 (let options = sort_key prompt options in
                                  write_last lib (LogFoundDevices (length options))
                                    (st\<lparr>serial_to_hostname := d,
                                        device_list := device_list st @ options\<rparr>)))))))))"

section \<open>\<^verbatim>\<open>run_version_check\<close>\<close>

definition version_request ::
  "tui \<Rightarrow> string \<times> string \<Rightarrow> command_info \<Rightarrow> pystr \<Rightarrow> request" where
  \<comment> \<open>\<^verbatim>\<open>base_url\<close>, \<^verbatim>\<open>payload\<close> and \<^verbatim>\<open>auth\<close> of the call in \<^verbatim>\<open>run_version_check\<close>\<close>
  "version_request st a info target_serial =
     \<lparr>url = base_url st, ptype = ''op'', cmd = cmd_template info,
      target = Some target_serial, auth = a\<rparr>"

definition run_version_check ::
  "textual \<Rightarrow> (request \<Rightarrow> api_result) \<Rightarrow> tui \<Rightarrow> string \<times> string \<Rightarrow> exit \<times> tui" where
  "run_version_check lib net st0 a =
    (case selected st0 of
       [] \<Rightarrow> write_last lib LogSelectOneDevice st0
     | target_serial # _ \<Rightarrow>
        (let target_hostname = hostname_of st0 target_serial in
         (case log_write lib (LogRunningCheck (fmt target_hostname)) st0 of
            None \<Rightarrow> (Raised MarkupError, st0)
          | Some st \<Rightarrow>
             (case map_of URL_CHOICES ''Software Version Check'' of
                None \<Rightarrow> (Raised (KeyError ''Software Version Check''), st)
              | Some info \<Rightarrow>
                 (let req = version_request st a info target_serial;
                      st = sent req st
                  in (case checked (net req) of
                        Inl e \<Rightarrow> write_last lib (LogConnectionError e) st
                      | Inr resp \<Rightarrow>
                         (case document resp of
                            None \<Rightarrow> (Raised ParseError, st)
                          | Some root \<Rightarrow>
                             (case map_of (attrib root) ''status'' of
                                None \<Rightarrow> (Raised (KeyError ''status''), st)
                              | Some status \<Rightarrow>
                                 if status = ''error'' then
                                   (case find_descendant ''msg'' root of
                                      None \<Rightarrow> (Raised AttributeError, st)
                                    | Some msg_node \<Rightarrow>
                                        write_last lib (LogApiError (fmt (text_of msg_node)))
                                          st)
                                 else
                                   (let versions =
                                          map text_of
                                            (findall_path
                                               [''result'', ''sw-updates'', ''versions'',
                                                ''entry'', ''version''] root)
                                    in if versions = []
                                       then write_last lib LogNoVersions st
                                       else
                                        write_last lib (LogFoundVersions (length versions))
                                          (st\<lparr>version_options := versions,
                                              version_value := BLANK,
                                              version_disabled := False\<rparr>))))))))))"

section \<open>\<^verbatim>\<open>track_job_progress\<close>\<close>

fun join :: "string \<Rightarrow> string list \<Rightarrow> string" where
  "join sep [] = []"
| "join sep [x] = x"
| "join sep (x # y # ys) = x @ sep @ join sep (y # ys)"

definition str_join :: "string \<Rightarrow> pystr list \<Rightarrow> string option" where
  \<comment> \<open>\<^verbatim>\<open>sep.join(xs)\<close>; \<open>None\<close> is the \<^verbatim>\<open>TypeError\<close> raised when an item is \<^verbatim>\<open>None\<close>\<close>
  "str_join sep xs =
     (if list_all (\<lambda>x. x \<noteq> None) xs then Some (join sep (map the xs)) else None)"

definition job_request :: "tui \<Rightarrow> string \<times> string \<Rightarrow> pystr \<Rightarrow> string \<Rightarrow> request" where
  \<comment> \<open>\<^verbatim>\<open>base_url\<close>, \<^verbatim>\<open>payload\<close> and \<^verbatim>\<open>auth\<close> of the call in \<^verbatim>\<open>track_job_progress\<close>\<close>
  "job_request st a serial job_id =
     \<lparr>url = base_url st, ptype = ''op'',
      cmd = ''<show><jobs><id>'' @ job_id @ ''</id></jobs></show>'',
      target = Some serial, auth = a\<rparr>"

text \<open>
  One pass through the body of \<^verbatim>\<open>while True\<close>, on the result \<open>r\<close> of this pass's request.
  \<open>None\<close>: the body ran to its end and the loop goes round again; \<open>Some x\<close>: a
  \<^verbatim>\<open>break\<close> (\<open>Returned\<close>, nothing follows the loop) or an exception that is not caught.
\<close>

definition track_job_progress_body ::
  "textual \<Rightarrow> tui \<Rightarrow> string \<times> string \<Rightarrow> pystr \<Rightarrow> string \<Rightarrow> pystr \<Rightarrow> api_result
     \<Rightarrow> exit option \<times> tui" where
  "track_job_progress_body lib st0 a serial job_id hostname r =
    (let st = sent (job_request st0 a serial job_id) st0 in
     case checked r of
       Inl e \<Rightarrow> write_break lib (LogJobCheckError job_id (fmt hostname) e) st
     | Inr resp \<Rightarrow>
        (case document resp of
           None \<Rightarrow> (Some (Raised ParseError), st)
         | Some root \<Rightarrow>
            (case find_path [''result'', ''job'', ''status''] root of
               None \<Rightarrow> write_break lib (LogNoStatus job_id (fmt hostname)) st
             | Some status_node \<Rightarrow>
                let status = text_of status_node in
                if status = Some ''FIN'' then
                  (case find_path [''result'', ''job'', ''result''] root of
                     None \<Rightarrow> (Some (Raised AttributeError), st)
                   | Some result_node \<Rightarrow>
                      if text_of result_node = Some ''OK''
                      then write_break lib (LogJobFinishedOk job_id (fmt hostname)) st
                      else
                       (case str_join [CHR 0x0A]
                               (map text_of
                                  (findall_path
                                     [''result'', ''job'', ''details'', ''line''] root)) of
                          None \<Rightarrow> (Some (Raised TypeError), st)
                        | Some details \<Rightarrow>
                            write_break lib (LogJobFinishedFail job_id (fmt hostname) details)
                              st))
                else if status = Some ''ACT'' then
                  (case find_path [''result'', ''job'', ''progress''] root of
                     None \<Rightarrow> (None, st)
                   | Some progress_node \<Rightarrow>
                      if truthy (text_of progress_node)
                      then write_next lib
                             (LogJobProgress job_id (fmt hostname)
                                (fmt (text_of progress_node))) st
                      else (None, st))
                else write_next lib (LogJobOngoing job_id (fmt hostname) (fmt status)) st)))"

text \<open>
  The loop, on the results of its successive polls. The list is the part of the run that
  has been observed; when it is used up before the loop has ended, the tracker is still
  \<open>Polling\<close>.
\<close>

fun track_job_progress_loop ::
  "textual \<Rightarrow> tui \<Rightarrow> string \<times> string \<Rightarrow> pystr \<Rightarrow> string \<Rightarrow> pystr \<Rightarrow> api_result list
     \<Rightarrow> exit \<times> tui" where
  "track_job_progress_loop lib st a serial job_id hostname [] = (Polling, st)"
| "track_job_progress_loop lib st a serial job_id hostname (r # rs) =
     (case track_job_progress_body lib st a serial job_id hostname r of
        (None, st') \<Rightarrow> track_job_progress_loop lib st' a serial job_id hostname rs
      | (Some x, st') \<Rightarrow> (x, st'))"

definition track_job_progress ::
  "textual \<Rightarrow> tui \<Rightarrow> string \<times> string \<Rightarrow> pystr \<Rightarrow> string \<Rightarrow> api_result list
     \<Rightarrow> exit \<times> tui" where
  "track_job_progress lib st a serial job_id rs =
     track_job_progress_loop lib st a serial job_id (hostname_of st serial) rs"

section \<open>\<^verbatim>\<open>run_execute_command\<close>\<close>

definition command_request ::
  "tui \<Rightarrow> string \<times> string \<Rightarrow> command_info \<Rightarrow> pystr \<Rightarrow> pystr \<Rightarrow> request" where
  \<comment> \<open>\<^verbatim>\<open>base_url\<close>, \<^verbatim>\<open>command_xml\<close>, \<^verbatim>\<open>payload\<close> and \<^verbatim>\<open>auth\<close> of the call in
      \<^verbatim>\<open>run_execute_command\<close>\<close>
  "command_request st a info version serial =
     (let command_xml =
            (if truthy version then format_version (cmd_template info) (fmt version)
             else cmd_template info)
      in \<lparr>url = base_url st, ptype = ''op'', cmd = command_xml,
          target = Some serial, auth = a\<rparr>)"

definition job_id_of :: "xml \<Rightarrow> string option" where
  \<comment> \<open>\<^verbatim>\<open>job_id_node = root.find('./result/job')\<close> and the test
      \<^verbatim>\<open>job_id_node is not None and job_id_node.text\<close>: the job id, if there is one\<close>
  "job_id_of root =
     (case find_path [''result'', ''job''] root of
        None \<Rightarrow> None
      | Some job_id_node \<Rightarrow>
          if truthy (text_of job_id_node) then text_of job_id_node else None)"


text \<open>
  One pass through the body of \<^verbatim>\<open>for serial in selected_serials\<close>. \<open>None\<close>: the loop
  goes on to the next serial; \<open>Some (Raised e)\<close>: exception \<open>e\<close> leaves the loop and the
  coroutine.
\<close>

definition run_execute_command_body ::
  "textual \<Rightarrow> (request \<Rightarrow> api_result) \<Rightarrow> string \<times> string \<Rightarrow> string \<Rightarrow> command_info \<Rightarrow> pystr
     \<Rightarrow> tui \<Rightarrow> pystr \<Rightarrow> exit option \<times> tui" where
  "run_execute_command_body lib net a command_name info version st0 serial =
    (let hostname = hostname_of st0 serial;
         req = command_request st0 a info version serial
     in (case log_write lib (LogRunning command_name (fmt hostname)) st0 of
           None \<Rightarrow> (Some (Raised MarkupError), st0)
         | Some st \<Rightarrow>
            (let st = sent req st in
             (case checked (net req) of
                Inl e \<Rightarrow> write_next lib (LogErrorFor (fmt hostname) e) st
              | Inr resp \<Rightarrow>
                 if generates_job info = Some True then
                   (case document resp of
                      None \<Rightarrow> (Some (Raised ParseError), st)
                    | Some root \<Rightarrow>
                       (case job_id_of root of
                          Some job_id \<Rightarrow>
                            (case log_write lib (LogJobEnqueued job_id (fmt hostname)) st of
                               None \<Rightarrow> (Some (Raised MarkupError), st)
                             | Some st \<Rightarrow>
                                 (None, run_worker (TrackJobProgress a serial job_id) st))
                        | None \<Rightarrow>
                            write_next lib (LogNoJobId command_name (fmt hostname)) st))
                 else write_next lib (LogSuccess (status_code resp)) st))))"

fun run_execute_command_loop ::
  "textual \<Rightarrow> (request \<Rightarrow> api_result) \<Rightarrow> string \<times> string \<Rightarrow> string \<Rightarrow> command_info \<Rightarrow> pystr
     \<Rightarrow> tui \<Rightarrow> pystr list \<Rightarrow> exit \<times> tui" where
  "run_execute_command_loop lib net a command_name info version st [] = (Returned, st)"
| "run_execute_command_loop lib net a command_name info version st (serial # rest) =
     (case run_execute_command_body lib net a command_name info version st serial of
        (None, st') \<Rightarrow> run_execute_command_loop lib net a command_name info version st' rest
      | (Some x, st') \<Rightarrow> (x, st'))"

definition run_execute_command ::
  "textual \<Rightarrow> (request \<Rightarrow> api_result) \<Rightarrow> tui \<Rightarrow> string \<times> string \<Rightarrow> string \<Rightarrow> pystr
     \<Rightarrow> exit \<times> tui" where
  "run_execute_command lib net st a command_name version =
    (let selected_serials = selected st in
     if selected_serials = [] then write_last lib LogNoDevices st
     else
      (case map_of URL_CHOICES command_name of
         None \<Rightarrow> (Raised (KeyError command_name), st)
       | Some command_info \<Rightarrow>
          (case log_write lib (LogStarting command_name (length selected_serials)) st of
             None \<Rightarrow> (Raised MarkupError, st)
           | Some st \<Rightarrow>
               run_execute_command_loop lib net a command_name command_info version st
                 selected_serials)))"

section \<open>\<^verbatim>\<open>handle_button_press\<close>\<close>

definition command_name_of :: "button \<Rightarrow> string" where
  "command_name_of b =
     (if b = RunDownload then ''Download Version''
      else if b = RunInstall then ''Install Version''
      else if b = RunReboot then ''Reboot''
      else [])"

definition handle_button_press_actions :: "textual \<Rightarrow> tui \<Rightarrow> button \<Rightarrow> exit \<times> tui" where
  \<comment> \<open>from \<^verbatim>\<open>auth = (username, password)\<close> to the end of the handler\<close>
  "handle_button_press_actions lib st b =
    (let a = (username st, password st) in
     if b = Fetch then (Returned, run_worker (FetchDevices a) st)
     else if b = RunCheckVersions then (Returned, run_worker (RunVersionCheck a) st)
     else if b \<in> {RunDownload, RunInstall, RunReboot} then
       (let command_name = command_name_of b in
        case map_of URL_CHOICES command_name of
          None \<Rightarrow> (Raised (KeyError command_name), st)
        | Some info \<Rightarrow>
           if generates_job info = Some True then
             (case version_value st of
                BLANK \<Rightarrow> write_last lib LogSelectVersion st
              | Chosen version \<Rightarrow>
                  (Returned, run_worker (RunExecuteCommand a command_name version) st))
           else (Returned, run_worker (RunExecuteCommand a command_name None) st))
     else (Returned, st))"

definition handle_button_press :: "textual \<Rightarrow> tui \<Rightarrow> button \<Rightarrow> exit \<times> tui" where
  "handle_button_press lib st b =
    (if username st = [] \<or> password st = [] then
       (if b \<noteq> Fetch \<and> serial_to_hostname st = [] then handle_button_press_actions lib st b
        else write_last lib LogCredentialsRequired st)
     else handle_button_press_actions lib st b)"

section \<open>Traces\<close>

text \<open>
  The handlers only ever append to the log, to the workers and to the requests. \<open>traces st t\<close>
  is \<open>st\<close> with the three traces of \<open>t\<close> appended, and \<open>blank st\<close> is \<open>st\<close> with empty traces.
\<close>

definition traces :: "tui \<Rightarrow> tui \<Rightarrow> tui" where
  "traces st t =
     st\<lparr>output_log := output_log st @ output_log t,
        workers := workers st @ workers t,
        requests_sent := requests_sent st @ requests_sent t\<rparr>"

definition blank :: "tui \<Rightarrow> tui" where
  "blank st = st\<lparr>output_log := [], workers := [], requests_sent := []\<rparr>"

section \<open>Example inputs\<close>

text \<open>
  A library for the examples. Its markup parser follows the tag rules of the console markup
  of \<^verbatim>\<open>rich\<close>: a tag is an opening bracket, a character from \<^verbatim>\<open>a-z # / @\<close>, and the
  characters up to the next closing bracket, none of them an opening bracket; an opening
  tag is pushed; a closing tag \<^verbatim>\<open>[/name]\<close> must name an open tag, which it closes, and
  \<^verbatim>\<open>[/]\<close> closes the last open tag; a closing tag with nothing to close is the
  \<^verbatim>\<open>MarkupError\<close>. Tags left open at the end are accepted, and the text is the string
  without its tags. (Backslash escapes, style aliases and emoji codes, which the examples
  do not use, are left out.)
\<close>

definition tag_start :: "char \<Rightarrow> bool" where
  "tag_start c =
     ((CHR ''a'' \<le> c \<and> c \<le> CHR ''z'') \<or> c = CHR ''#'' \<or> c = CHR ''/'' \<or> c = CHR ''@'')"

definition strip_spaces :: "string \<Rightarrow> string" where
  "strip_spaces s = rev (dropWhile (\<lambda>c. c = CHR '' '') (rev (dropWhile (\<lambda>c. c = CHR '' '') s)))"

fun markup_scan :: "string list \<Rightarrow> string option \<Rightarrow> string \<Rightarrow> string option" where
  \<comment> \<open>the open tags, innermost first; the characters read since an opening bracket, if
      one is pending; the rest of the string. \<open>None\<close> is the \<^verbatim>\<open>MarkupError\<close>.\<close>
  "markup_scan stack None [] = Some []"
| "markup_scan stack (Some buf) [] = Some (CHR ''['' # buf)"
| "markup_scan stack None (c # cs) =
     (if c = CHR ''['' then markup_scan stack (Some []) cs
      else map_option ((#) c) (markup_scan stack None cs))"
| "markup_scan stack (Some buf) (c # cs) =
     (if c = CHR ''['' then
        map_option ((@) (CHR ''['' # buf)) (markup_scan stack (Some []) cs)
      else if c = CHR '']'' then
        (case buf of
           [] \<Rightarrow> map_option ((@) ''[]'') (markup_scan stack None cs)
         | b # bs \<Rightarrow>
             if \<not> tag_start b then
               map_option ((@) (CHR ''['' # buf @ '']'')) (markup_scan stack None cs)
             else if b = CHR ''/'' then
               (if strip_spaces bs = [] then
                  (case stack of
                     [] \<Rightarrow> None
                   | _ # stack' \<Rightarrow> markup_scan stack' None cs)
                else if strip_spaces bs \<in> set stack then
                  markup_scan (remove1 (strip_spaces bs) stack) None cs
                else None)
             else markup_scan (takeWhile (\<lambda>x. x \<noteq> CHR ''='') buf # stack) None cs)
      else markup_scan stack (Some (buf @ [c])) cs)"

definition ex_lib :: textual where
  "ex_lib =
     \<lparr>log_accepts = (\<lambda>s. markup_scan [] None s \<noteq> None),
      selection_prompt = markup_scan [] None\<rparr>"

definition leaf :: "string \<Rightarrow> string \<Rightarrow> xml" where
  "leaf t x = Element t [] (Some x) []"

definition node :: "string \<Rightarrow> xml list \<Rightarrow> xml" where
  "node t cs = Element t [] None cs"

definition envelope :: "string \<Rightarrow> xml list \<Rightarrow> xml" where
  "envelope status cs = Element ''response'' [(''status'', status)] None cs"

definition ok_response :: "xml \<Rightarrow> api_result" where
  "ok_response root = Returns \<lparr>status_code = 200, error_text = [], document = Some root\<rparr>"

definition job_snapshot :: "xml list \<Rightarrow> xml" where
  "job_snapshot cs = envelope ''success'' [node ''result'' [node ''job'' cs]]"

definition ex_enqueued_root :: xml where
  "ex_enqueued_root = envelope ''success'' [node ''result'' [leaf ''job'' ''42'']]"



definition ex_not_xml :: api_result where
  "ex_not_xml = Returns \<lparr>status_code = 200, error_text = [], document = None\<rparr>"

definition ex_timeout :: api_result where
  "ex_timeout = Raises (RequestException ''Read timed out.'')"

definition ex_server_error :: api_result where
  \<comment> \<open>an HTTP 500 whose reason phrase, which \<^verbatim>\<open>raise_for_status\<close> puts in the message of
      its \<^verbatim>\<open>HTTPError\<close>, is not well-formed markup\<close>
  "ex_server_error =
     Returns \<lparr>status_code = 500,
              error_text = ''500 Server Error: [/b] for url: https://10.0.0.1/api/'',
              document = None\<rparr>"

definition ex_fin_ok :: xml where
  "ex_fin_ok = job_snapshot [leaf ''status'' ''FIN'', leaf ''result'' ''OK'']"

definition ex_fin_fail :: xml where
  "ex_fin_fail =
     job_snapshot
       [leaf ''status'' ''FIN'', leaf ''result'' ''FAIL'',
        node ''details'' [leaf ''line'' ''Image not found'', leaf ''line'' ''Aborted'']]"

definition ex_fin_fail_blank_line :: xml where
  "ex_fin_fail_blank_line =
     job_snapshot
       [leaf ''status'' ''FIN'', leaf ''result'' ''FAIL'',
        node ''details'' [leaf ''line'' ''Image not found'', node ''line'' []]]"

definition ex_active :: xml where
  "ex_active = job_snapshot [leaf ''status'' ''ACT'', leaf ''progress'' ''40'']"

definition ex_active_no_progress :: xml where
  "ex_active_no_progress = job_snapshot [leaf ''status'' ''ACT'']"

definition ex_pending :: xml where
  "ex_pending = job_snapshot [leaf ''status'' ''PEND'']"

definition ex_bad_status :: xml where
  \<comment> \<open>a status that is not well-formed markup\<close>
  "ex_bad_status = job_snapshot [leaf ''status'' ''[/b]'']"

definition ex_no_status :: xml where
  "ex_no_status = job_snapshot []"

definition ex_auth_error :: xml where
  "ex_auth_error = envelope ''error'' [leaf ''msg'' ''Authentication failed'']"


definition ex_devices :: xml where
  "ex_devices =
     envelope ''success''
       [node ''result''
          [node ''devices''
             [node ''entry'' [leaf ''serial'' ''S2'', leaf ''hostname'' ''fw2''],
              node ''entry'' [leaf ''hostname'' ''fw3''],
              node ''entry'' [leaf ''serial'' ''S1'', leaf ''hostname'' ''fw1'']]]]"

definition ex_devices_spaced :: xml where
  \<comment> \<open>two devices, one with spaces in its hostname\<close>
  "ex_devices_spaced =
     envelope ''success''
       [node ''result''
          [node ''devices''
             [node ''entry'' [leaf ''serial'' ''S1'', leaf ''hostname'' ''a''],
              node ''entry'' [leaf ''serial'' ''S2'', leaf ''hostname'' ''a  b'']]]]"

definition ex_devices_markup :: xml where
  \<comment> \<open>two devices, one with markup in its hostname\<close>
  "ex_devices_markup =
     envelope ''success''
       [node ''result''
          [node ''devices''
             [node ''entry'' [leaf ''serial'' ''S1'', leaf ''hostname'' ''[b]z[/b]''],
              node ''entry'' [leaf ''serial'' ''S2'', leaf ''hostname'' ''a'']]]]"

definition ex_versions :: xml where
  "ex_versions =
     envelope ''success''
       [node ''result''
          [node ''sw-updates''
             [node ''versions''
                [node ''entry'' [leaf ''version'' ''10.2.3''],
                 node ''entry'' [leaf ''version'' ''10.2.2'']]]]]"

definition net_by_serial ::
  "(pystr \<times> api_result) list \<Rightarrow> api_result \<Rightarrow> request \<Rightarrow> api_result" where
  \<comment> \<open>a manager that answers by the \<^verbatim>\<open>target\<close> of the request\<close>
  "net_by_serial table other req =
     (case target req of
        None \<Rightarrow> other
      | Some serial \<Rightarrow> (case map_of table serial of None \<Rightarrow> other | Some r \<Rightarrow> r))"

definition ex_auth :: "string \<times> string" where
  "ex_auth = (''admin'', ''secret'')"

definition ex_tui :: tui where
  "ex_tui =
     \<lparr>pano_ip = ''10.0.0.1'', username = ''admin'', password = ''secret'',
      serial_to_hostname = [(Some ''S1'', Some ''fw1''), (Some ''S2'', Some ''fw2'')],
      device_list = [\<lparr>prompt = ''fw1 (S1)'', sel_value = Some ''S1''\<rparr>,
                     \<lparr>prompt = ''fw2 (S2)'', sel_value = Some ''S2''\<rparr>],
      selected = [Some ''S1'', Some ''S2''],
      version_options = [Some ''10.2.3''], version_disabled = False,
      version_value = Chosen (Some ''10.2.3''),
      output_log = [], workers = [], requests_sent = []\<rparr>"

definition ex_download_info :: command_info where
  \<comment> \<open>the catalogue's entry for "Download Version"\<close>
  "ex_download_info =
     \<lparr>cmd_template =
        ''<request><system><software><download><version>{version}</version></download></software></system></request>'',
      generates_job = Some True\<rparr>"


section \<open>Facts about the log and the traces\<close>

lemma log_write_writable [simp]: "writable lib l \<Longrightarrow> log_write lib l st = Some (logged l st)"
  by (simp add: log_write_def)

lemma log_write_refused [simp]: "\<not> writable lib l \<Longrightarrow> log_write lib l st = None"
  by (simp add: log_write_def)

lemma write_last_writable: "writable lib l \<Longrightarrow> write_last lib l st = (Returned, logged l st)"
  by (simp add: write_last_def)

lemma write_last_refused: "\<not> writable lib l \<Longrightarrow> write_last lib l st = (Raised MarkupError, st)"
  by (simp add: write_last_def)

lemma write_break_last: "write_break lib l st = (Some (fst (write_last lib l st)), snd (write_last lib l st))"
  by (simp add: write_break_def write_last_def split: option.splits)

lemma write_next_writable: "writable lib l \<Longrightarrow> write_next lib l st = (None, logged l st)"
  by (simp add: write_next_def)

lemma logged_fields [simp]:
  "pano_ip (logged l st) = pano_ip st"
  "serial_to_hostname (logged l st) = serial_to_hostname st"
  "device_list (logged l st) = device_list st"
  "selected (logged l st) = selected st"
  "output_log (logged l st) = output_log st @ [l]"
  "requests_sent (logged l st) = requests_sent st"
  by (simp_all add: logged_def)

lemma sent_fields [simp]:
  "pano_ip (sent r st) = pano_ip st"
  "serial_to_hostname (sent r st) = serial_to_hostname st"
  "device_list (sent r st) = device_list st"
  "selected (sent r st) = selected st"
  "output_log (sent r st) = output_log st"
  "requests_sent (sent r st) = requests_sent st @ [r]"
  by (simp_all add: sent_def)

lemma hostname_of_logged [simp]: "hostname_of (logged l st) s = hostname_of st s"
  by (simp add: hostname_of_def logged_def)

lemma hostname_of_sent [simp]: "hostname_of (sent r st) s = hostname_of st s"
  by (simp add: hostname_of_def sent_def)

lemma workers_logged [simp]: "workers (logged l st) = workers st"
  by (simp add: logged_def)

lemma workers_sent [simp]: "workers (sent r st) = workers st"
  by (simp add: sent_def)

lemma blank_traces [simp]: "blank (traces st t) = blank st"
  by (simp add: blank_def traces_def)

lemma blank_blank [simp]: "blank (blank st) = blank st"
  by (simp add: blank_def)

lemma blank_logged [simp]: "blank (logged l st) = blank st"
  by (simp add: blank_def logged_def)

lemma blank_sent [simp]: "blank (sent r st) = blank st"
  by (simp add: blank_def sent_def)

lemma blank_run_worker [simp]: "blank (run_worker w st) = blank st"
  by (simp add: blank_def run_worker_def)

lemma traces_assoc: "traces (traces st t) u = traces st (traces t u)"
  by (simp add: traces_def)

lemma traces_blank [simp]: "traces st (blank t) = st"
  by (simp add: traces_def blank_def)


text \<open>One pass of the dispatch loop only appends to the traces, and what it appends does not
  depend on the traces it finds.\<close>

lemma run_execute_command_body_frame:
  "run_execute_command_body lib net a n info v st s =
     (case run_execute_command_body lib net a n info v (blank st) s of
        (x, t) \<Rightarrow> (x, traces st t))"
  by (simp add: run_execute_command_body_def Let_def blank_def traces_def log_write_def
        write_next_def logged_def sent_def run_worker_def hostname_of_def command_request_def
        base_url_def
      split: sum.splits option.splits)

lemma run_execute_command_body_blank:
  "blank (snd (run_execute_command_body lib net a n info v st s)) = blank st"
  by (simp add: run_execute_command_body_def Let_def blank_def log_write_def write_next_def
        logged_def sent_def run_worker_def
      split: sum.splits option.splits)

lemma run_execute_command_loop_frame:
  "\<exists>x t. blank t = blank st \<and>
     (\<forall>st'. blank st' = blank st \<longrightarrow>
        run_execute_command_loop lib net a n info v st' ss = (x, traces st' t))"
proof (induction ss arbitrary: st)
  case Nil
  have "\<forall>st'. blank st' = blank st \<longrightarrow>
        run_execute_command_loop lib net a n info v st' [] = (Returned, traces st' (blank st))"
    by simp
  moreover have "blank (blank st) = blank st" by simp
  ultimately show ?case by blast
next
  case (Cons s ss)
  obtain x e where b: "run_execute_command_body lib net a n info v (blank st) s = (x, e)"
    by (cases "run_execute_command_body lib net a n info v (blank st) s")
  have e: "blank e = blank st"
    using run_execute_command_body_blank [of lib net a n info v "blank st" s] b by simp
  have b': "run_execute_command_body lib net a n info v st' s = (x, traces st' e)"
    if "blank st' = blank st" for st'
    using run_execute_command_body_frame [of lib net a n info v st' s] b that by simp
  show ?case
  proof (cases x)
    case (Some ex)
    then have "\<forall>st'. blank st' = blank st \<longrightarrow>
        run_execute_command_loop lib net a n info v st' (s # ss) = (ex, traces st' e)"
      using b' by simp
    with e show ?thesis by blast
  next
    case None
    from Cons.IH [of st] obtain y t where t: "blank t = blank st"
      and l: "\<And>st'. blank st' = blank st \<Longrightarrow>
                run_execute_command_loop lib net a n info v st' ss = (y, traces st' t)"
      by blast
    have "run_execute_command_loop lib net a n info v st' (s # ss) = (y, traces st' (traces e t))"
      if "blank st' = blank st" for st'
    proof -
      have "blank (traces st' e) = blank st" using that by simp
      then have "run_execute_command_loop lib net a n info v (traces st' e) ss
                   = (y, traces (traces st' e) t)"
        by (rule l)
      then show ?thesis using b' [OF that] None by (simp add: traces_assoc)
    qed
    moreover have "blank (traces e t) = blank st" using e by simp
    ultimately show ?thesis by blast
  qed
qed

lemma devices_request_fetching:
  "devices_request
     (logged l (st\<lparr>device_list := [], selected := [], serial_to_hostname := []\<rparr>)) a =
   devices_request st a"
  by (simp add: devices_request_def base_url_def logged_def)

section \<open>C1: errors of one device and the other devices\<close>

text \<open>
  C1, as stated, fails. The claim: any error arising while one device is processed is turned
  into a failure outcome for that device only, and the remaining devices are still
  processed. The dispatch loop catches \<^verbatim>\<open>requests.exceptions.RequestException\<close> and nothing
  else. Below, "Download Version" goes to two devices and the manager's answer for the first
  is not well-formed XML: \<^verbatim>\<open>ET.fromstring\<close> raises \<^verbatim>\<open>ParseError\<close>, the coroutine ends with it,
  no outcome is logged for the first device and the second device is never contacted.
\<close>

theorem parse_error_aborts_dispatch:
  "run_execute_command ex_lib
      (net_by_serial [(Some ''S1'', ex_not_xml)] (ok_response ex_enqueued_root)) ex_tui ex_auth
      ''Download Version'' (Some ''10.2.3'') =
     (Raised ParseError,
      ex_tui
        \<lparr>output_log :=
           [LogStarting ''Download Version'' 2, LogRunning ''Download Version'' ''fw1''],
         requests_sent :=
           [\<lparr>url = ''https://10.0.0.1/api/'', ptype = ''op'',
             cmd = ''<request><system><software><download><version>10.2.3</version></download></software></system></request>'',
             target = Some (Some ''S1''), auth = (''admin'', ''secret'')\<rparr>]\<rparr>)"
  by code_simp

text \<open>
  C1, amended: every error of the transport layer (a \<^verbatim>\<open>RequestException\<close> raised by the call,
  or an HTTP status from 400 to 599) met while one device is processed becomes one failure
  outcome for that device, where the log accepts the two lines of that device, and the
  devices after it are processed as they are without it: the loop over \<open>serial # rest\<close> ends
  as the loop over \<open>rest\<close> does and appends the same lines, workers and requests \<open>t\<close>, after
  the two lines and the request of the failed device. In the job tracker a transport error
  of a poll becomes one failure outcome for that job, where the log accepts its line, and
  ends that tracker only.
\<close>

theorem transport_error_isolated:
  "(checked (net (command_request st a info version serial)) = Inl e \<and>
    writable lib (LogRunning name (fmt (hostname_of st serial))) \<and>
    writable lib (LogErrorFor (fmt (hostname_of st serial)) e) \<longrightarrow>
      (\<exists>x t.
         run_execute_command_loop lib net a name info version st rest = (x, traces st t) \<and>
         run_execute_command_loop lib net a name info version st (serial # rest) =
           (x, traces
                 (logged (LogErrorFor (fmt (hostname_of st serial)) e)
                    (sent (command_request st a info version serial)
                       (logged (LogRunning name (fmt (hostname_of st serial))) st))) t))) \<and>
   (checked r = Inl e \<and>
    writable lib (LogJobCheckError job_id (fmt (hostname_of st serial)) e) \<longrightarrow>
      track_job_progress lib st a serial job_id (r # rs) =
        (Returned,
         logged (LogJobCheckError job_id (fmt (hostname_of st serial)) e)
           (sent (job_request st a serial job_id) st)))"
proof (intro conjI impI)
  assume f: "checked (net (command_request st a info version serial)) = Inl e \<and>
    writable lib (LogRunning name (fmt (hostname_of st serial))) \<and>
    writable lib (LogErrorFor (fmt (hostname_of st serial)) e)"
  let ?st1 = "logged (LogErrorFor (fmt (hostname_of st serial)) e)
                (sent (command_request st a info version serial)
                   (logged (LogRunning name (fmt (hostname_of st serial))) st))"
  have b: "run_execute_command_body lib net a name info version st serial = (None, ?st1)"
    using f by (simp add: run_execute_command_body_def Let_def write_next_writable)
  have c: "blank ?st1 = blank st"
    by simp
  from run_execute_command_loop_frame [of st lib net a name info version rest] obtain x t where
    l: "\<And>st'. blank st' = blank st \<Longrightarrow>
          run_execute_command_loop lib net a name info version st' rest = (x, traces st' t)"
    by blast
  have "run_execute_command_loop lib net a name info version st rest = (x, traces st t)"
    by (rule l) simp
  moreover have "run_execute_command_loop lib net a name info version st (serial # rest)
      = (x, traces ?st1 t)"
    using b l [OF c] by simp
  ultimately show "\<exists>x t.
         run_execute_command_loop lib net a name info version st rest = (x, traces st t) \<and>
         run_execute_command_loop lib net a name info version st (serial # rest) =
           (x, traces ?st1 t)"
    by blast
next
  assume "checked r = Inl e \<and>
    writable lib (LogJobCheckError job_id (fmt (hostname_of st serial)) e)"
  then show "track_job_progress lib st a serial job_id (r # rs) =
        (Returned,
         logged (LogJobCheckError job_id (fmt (hostname_of st serial)) e)
           (sent (job_request st a serial job_id) st))"
    by (simp add: track_job_progress_def track_job_progress_body_def write_break_def)
qed

theorem transport_error_isolated_witness:
  "checked
     (net_by_serial [(Some ''S1'', ex_timeout)] (ok_response ex_enqueued_root)
        (command_request ex_tui ex_auth ex_download_info (Some ''10.2.3'') (Some ''S1''))) =
     Inl (RequestException ''Read timed out.'') \<and>
   writable ex_lib (LogRunning ''Download Version'' ''fw1'') \<and>
   writable ex_lib (LogErrorFor ''fw1'' (RequestException ''Read timed out.'')) \<and>
   (\<exists>x t.
      run_execute_command_loop ex_lib
          (net_by_serial [(Some ''S1'', ex_timeout)] (ok_response ex_enqueued_root)) ex_auth
          ''Download Version'' ex_download_info (Some ''10.2.3'') ex_tui [Some ''S2''] =
        (x, traces ex_tui t) \<and>
      run_execute_command_loop ex_lib
          (net_by_serial [(Some ''S1'', ex_timeout)] (ok_response ex_enqueued_root)) ex_auth
          ''Download Version'' ex_download_info (Some ''10.2.3'') ex_tui
          [Some ''S1'', Some ''S2''] =
        (x, traces
              (logged (LogErrorFor ''fw1'' (RequestException ''Read timed out.''))
                 (sent (command_request ex_tui ex_auth ex_download_info (Some ''10.2.3'')
                          (Some ''S1''))
                    (logged (LogRunning ''Download Version'' ''fw1'') ex_tui))) t)) \<and>
   checked ex_timeout = Inl (RequestException ''Read timed out.'') \<and>
   writable ex_lib (LogJobCheckError ''42'' ''fw1'' (RequestException ''Read timed out.'')) \<and>
   track_job_progress ex_lib ex_tui ex_auth (Some ''S1'') ''42''
       [ex_timeout, ok_response ex_fin_ok] =
     (Returned,
      logged (LogJobCheckError ''42'' ''fw1'' (RequestException ''Read timed out.''))
        (sent (job_request ex_tui ex_auth (Some ''S1'') ''42'') ex_tui))"
proof -
  let ?net = "net_by_serial [(Some ''S1'', ex_timeout)] (ok_response ex_enqueued_root)"
  have h1: "checked
     (?net (command_request ex_tui ex_auth ex_download_info (Some ''10.2.3'') (Some ''S1''))) =
     Inl (RequestException ''Read timed out.'')"
    by (simp add: net_by_serial_def command_request_def ex_timeout_def checked_def)
  have h2: "checked ex_timeout = Inl (RequestException ''Read timed out.'')"
    by (simp add: ex_timeout_def checked_def)
  have w1: "writable ex_lib (LogRunning ''Download Version'' ''fw1'')"
    by code_simp
  have w2: "writable ex_lib (LogErrorFor ''fw1'' (RequestException ''Read timed out.''))"
    by code_simp
  have w3: "writable ex_lib
      (LogJobCheckError ''42'' ''fw1'' (RequestException ''Read timed out.''))"
    by code_simp
  have n: "fmt (hostname_of ex_tui (Some ''S1'')) = ''fw1''"
    by (simp add: hostname_of_def ex_tui_def fmt_def)
  note t1 = transport_error_isolated
    [where net = ?net and st = ex_tui and a = ex_auth and info = ex_download_info
       and version = "Some ''10.2.3''" and serial = "Some ''S1''"
       and e = "RequestException ''Read timed out.''" and name = "''Download Version''"
       and rest = "[Some ''S2'']" and lib = ex_lib,
     THEN conjunct1, unfolded n, rule_format, OF conjI [OF h1 conjI [OF w1 w2]]]
  note t2 = transport_error_isolated
    [where st = ex_tui and a = ex_auth and serial = "Some ''S1''"
       and e = "RequestException ''Read timed out.''" and r = ex_timeout
       and job_id = "''42''" and rs = "[ok_response ex_fin_ok]" and lib = ex_lib,
     THEN conjunct2, unfolded n, rule_format, OF conjI [OF h2 w3]]
  show ?thesis
    using h1 w1 w2 t1 h2 w3 t2 by (intro conjI)
qed

section \<open>C2: the finished status\<close>

text \<open>
  Where the response has the result field and every detail line has text, the tracker does
  what C2 says: on status \<^verbatim>\<open>FIN\<close> with result \<^verbatim>\<open>OK\<close> it writes one success line and leaves
  the loop after this one poll; with another result it writes one failure line that carries
  all the detail lines, joined by newlines, and leaves the loop.
\<close>

lemma finished_status_with_text:
  assumes "checked r = Inr resp" and "document resp = Some root"
    and "find_path [''result'', ''job'', ''status''] root = Some status_node"
    and "text_of status_node = Some ''FIN''"
    and "find_path [''result'', ''job'', ''result''] root = Some result_node"
  shows "(text_of result_node = Some ''OK'' \<longrightarrow>
           track_job_progress lib st a serial job_id (r # rs) =
             write_last lib (LogJobFinishedOk job_id (fmt (hostname_of st serial)))
               (sent (job_request st a serial job_id) st)) \<and>
         (text_of result_node \<noteq> Some ''OK'' \<and>
          map text_of (findall_path [''result'', ''job'', ''details'', ''line''] root) =
            map Some lines \<longrightarrow>
           track_job_progress lib st a serial job_id (r # rs) =
             write_last lib
               (LogJobFinishedFail job_id (fmt (hostname_of st serial)) (join [CHR 0x0A] lines))
               (sent (job_request st a serial job_id) st))"
proof -
  have j: "str_join sep (map Some lines) = Some (join sep lines)" for sep
    by (simp add: str_join_def list_all_iff comp_def)
  show ?thesis
    using assms j
    by (simp add: track_job_progress_def track_job_progress_body_def Let_def
          write_break_last
          del: findall_path.simps)
qed

text \<open>
  C2 fails where a detail line has no text. Status \<^verbatim>\<open>FIN\<close>, result \<^verbatim>\<open>FAIL\<close>, and the details
  hold a line with text and an empty \<^verbatim>\<open><line/>\<close>, whose \<^verbatim>\<open>.text\<close> is \<^verbatim>\<open>None\<close>:
  \<^verbatim>\<open>"\n".join\<close> raises \<^verbatim>\<open>TypeError\<close>, which the \<^verbatim>\<open>except\<close> clause does not catch. The tracker
  ends with the exception and logs no failure outcome, while C2 promises a failure outcome
  with every detail line of the response.
\<close>

theorem finished_failure_blank_line_raises:
  "track_job_progress ex_lib ex_tui ex_auth (Some ''S1'') ''42''
     [ok_response ex_fin_fail_blank_line] =
     (Raised TypeError,
      ex_tui\<lparr>requests_sent :=
               [\<lparr>url = ''https://10.0.0.1/api/'', ptype = ''op'',
                 cmd = ''<show><jobs><id>42</id></jobs></show>'',
                 target = Some (Some ''S1''), auth = (''admin'', ''secret'')\<rparr>]\<rparr>)"
  by code_simp

section \<open>C3: the error envelope\<close>




section \<open>C4: when a job tracker is spawned\<close>







section \<open>C5: the device list\<close>

lemma collect_entries_options:
  assumes "\<forall>e \<in> set es.
             find_path [''hostname''] e \<noteq> None \<and> find_path [''serial''] e \<noteq> None \<longrightarrow>
             make_selection lib (text_of (the (find_path [''hostname''] e)))
               (text_of (the (find_path [''serial''] e))) \<noteq> None"
  shows "fst (collect_entries lib es d options) = None \<and>
         snd (snd (collect_entries lib es d options)) =
           options @
           map (\<lambda>e. the (make_selection lib (text_of (the (find_path [''hostname''] e)))
                          (text_of (the (find_path [''serial''] e)))))
             (filter (\<lambda>e. find_path [''hostname''] e \<noteq> None \<and>
                           find_path [''serial''] e \<noteq> None) es)"
  using assms
  by (induction es arbitrary: d options) (auto split: option.splits)

text \<open>
  C5, as stated, fails: the list is sorted by the label of the selections, and the order of
  the labels is not the order by hostname, then serial. The manager lists the hostnames
  \<^verbatim>\<open>a\<close> and \<^verbatim>\<open>a  b\<close>: the labels are \<^verbatim>\<open>a (S1)\<close> and \<^verbatim>\<open>a  b (S2)\<close>, and since the space comes
  before the opening parenthesis the second label is the smaller, so \<^verbatim>\<open>a  b\<close> is shown
  before \<^verbatim>\<open>a\<close>.
\<close>

theorem device_list_not_by_hostname:
  "device_list
     (snd (fetch_devices ex_lib (net_by_serial [] (ok_response ex_devices_spaced)) ex_tui
             ex_auth)) =
     [\<lparr>prompt = ''a  b (S2)'', sel_value = Some ''S2''\<rparr>,
      \<lparr>prompt = ''a (S1)'', sel_value = Some ''S1''\<rparr>] \<and>
   (''a'' :: string) < ''a  b''"
  by code_simp

text \<open>
  C5, amended: for a response that parses, has a status attribute and is not an error
  envelope, and whose labels the selection list accepts, the device list shown to the
  operator holds one selection for every entry of \<^verbatim>\<open>./result/devices/entry\<close> that has both
  a \<^verbatim>\<open>hostname\<close> and a \<^verbatim>\<open>serial\<close> child, none for an entry that lacks either, and it is
  sorted by the label of the selections, which is the text that the list shows for
  \<^verbatim>\<open>hostname (serial)\<close> (ties keep the order of the response). The fetch then writes the
  number of devices to the log and returns.
\<close>

theorem device_list_extraction:
  assumes "pano_ip st \<noteq> []"
    and "writable lib (LogFetching (pano_ip st))"
    and "checked (net (devices_request st a)) = Inr resp"
    and "document resp = Some root"
    and "map_of (attrib root) ''status'' = Some status"
    and "status \<noteq> ''error''"
    and "\<forall>e \<in> set (findall_path [''result'', ''devices'', ''entry''] root).
           find_path [''hostname''] e \<noteq> None \<and> find_path [''serial''] e \<noteq> None \<longrightarrow>
           make_selection lib (text_of (the (find_path [''hostname''] e)))
             (text_of (the (find_path [''serial''] e))) \<noteq> None"
  shows "device_list (snd (fetch_devices lib net st a)) =
           sort_key prompt
             (map (\<lambda>e. the (make_selection lib (text_of (the (find_path [''hostname''] e)))
                            (text_of (the (find_path [''serial''] e)))))
                (filter (\<lambda>e. find_path [''hostname''] e \<noteq> None \<and>
                              find_path [''serial''] e \<noteq> None)
                   (findall_path [''result'', ''devices'', ''entry''] root))) \<and>
         sorted (map prompt (device_list (snd (fetch_devices lib net st a)))) \<and>
         fst (fetch_devices lib net st a) =
           (if writable lib
                 (LogFoundDevices
                    (length
                       (filter (\<lambda>e. find_path [''hostname''] e \<noteq> None \<and>
                                     find_path [''serial''] e \<noteq> None)
                          (findall_path [''result'', ''devices'', ''entry''] root))))
            then Returned else Raised MarkupError)"
proof -
  let ?st1 = "st\<lparr>device_list := [], selected := [], serial_to_hostname := []\<rparr>"
  let ?es = "findall_path [''result'', ''devices'', ''entry''] root"
  let ?kept = "filter (\<lambda>e. find_path [''hostname''] e \<noteq> None \<and>
                            find_path [''serial''] e \<noteq> None) ?es"
  let ?sel = "\<lambda>e. the (make_selection lib (text_of (the (find_path [''hostname''] e)))
                          (text_of (the (find_path [''serial''] e))))"
  obtain x d options where c: "collect_entries lib ?es [] [] = (x, d, options)"
    by (cases "collect_entries lib ?es [] []")
  have o: "x = None" "options = map ?sel ?kept"
    using collect_entries_options [OF assms(7), of "[]" "[]"] c by simp_all
  have f: "fetch_devices lib net st a =
      write_last lib (LogFoundDevices (length (sort_key prompt options)))
        ((sent (devices_request st a) (logged (LogFetching (pano_ip st)) ?st1))
           \<lparr>serial_to_hostname := d, device_list := sort_key prompt options\<rparr>)"
    using assms(1-6) c o(1)
    by (simp add: fetch_devices_def Let_def devices_request_fetching
          del: findall_path.simps)
  show ?thesis
    unfolding f using o(2)
    by (simp add: write_last_def log_write_def del: findall_path.simps)
qed

theorem device_list_extraction_witness:
  "pano_ip ex_tui \<noteq> [] \<and>
   writable ex_lib (LogFetching (pano_ip ex_tui)) \<and>
   checked (net_by_serial [] (ok_response ex_devices) (devices_request ex_tui ex_auth)) =
     Inr \<lparr>status_code = 200, error_text = [], document = Some ex_devices\<rparr> \<and>
   map_of (attrib ex_devices) ''status'' = Some ''success'' \<and>
   ''success'' \<noteq> ''error'' \<and>
   findall_path [''result'', ''devices'', ''entry''] ex_devices =
     [node ''entry'' [leaf ''serial'' ''S2'', leaf ''hostname'' ''fw2''],
      node ''entry'' [leaf ''hostname'' ''fw3''],
      node ''entry'' [leaf ''serial'' ''S1'', leaf ''hostname'' ''fw1'']] \<and>
   make_selection ex_lib (Some ''fw2'') (Some ''S2'') =
     Some \<lparr>prompt = ''fw2 (S2)'', sel_value = Some ''S2''\<rparr> \<and>
   make_selection ex_lib (Some ''fw1'') (Some ''S1'') =
     Some \<lparr>prompt = ''fw1 (S1)'', sel_value = Some ''S1''\<rparr> \<and>
   writable ex_lib (LogFoundDevices 2) \<and>
   device_list
     (snd (fetch_devices ex_lib (net_by_serial [] (ok_response ex_devices)) ex_tui ex_auth)) =
     [\<lparr>prompt = ''fw1 (S1)'', sel_value = Some ''S1''\<rparr>,
      \<lparr>prompt = ''fw2 (S2)'', sel_value = Some ''S2''\<rparr>] \<and>
   sorted (map prompt
     (device_list
        (snd (fetch_devices ex_lib (net_by_serial [] (ok_response ex_devices)) ex_tui
                ex_auth)))) \<and>
   fst (fetch_devices ex_lib (net_by_serial [] (ok_response ex_devices)) ex_tui ex_auth) =
     Returned"
proof -
  let ?net = "net_by_serial [] (ok_response ex_devices)"
  let ?e1 = "node ''entry'' [leaf ''serial'' ''S2'', leaf ''hostname'' ''fw2'']"
  let ?e2 = "node ''entry'' [leaf ''hostname'' ''fw3'']"
  let ?e3 = "node ''entry'' [leaf ''serial'' ''S1'', leaf ''hostname'' ''fw1'']"
  have p: "pano_ip ex_tui \<noteq> []"
    by (simp add: ex_tui_def)
  have wf: "writable ex_lib (LogFetching (pano_ip ex_tui))"
    by code_simp
  have c: "checked (?net (devices_request ex_tui ex_auth)) =
       Inr \<lparr>status_code = 200, error_text = [], document = Some ex_devices\<rparr>"
    by (simp add: net_by_serial_def devices_request_def ok_response_def checked_def
          raise_for_status_def)
  have d: "document \<lparr>status_code = 200, error_text = [], document = Some ex_devices\<rparr> =
       Some ex_devices"
    by simp
  have s: "map_of (attrib ex_devices) ''status'' = Some ''success''"
    by (simp add: ex_devices_def envelope_def)
  have n: "''success'' \<noteq> ''error''"
    by simp
  have entries: "findall_path [''result'', ''devices'', ''entry''] ex_devices = [?e1, ?e2, ?e3]"
    by (simp add: ex_devices_def envelope_def node_def)
  have m1: "make_selection ex_lib (Some ''fw2'') (Some ''S2'') =
     Some \<lparr>prompt = ''fw2 (S2)'', sel_value = Some ''S2''\<rparr>"
    by code_simp
  have m2: "make_selection ex_lib (Some ''fw1'') (Some ''S1'') =
     Some \<lparr>prompt = ''fw1 (S1)'', sel_value = Some ''S1''\<rparr>"
    by code_simp
  have fields:
    "find_path [''hostname''] ?e1 = Some (leaf ''hostname'' ''fw2'')"
    "find_path [''serial''] ?e1 = Some (leaf ''serial'' ''S2'')"
    "find_path [''hostname''] ?e2 = Some (leaf ''hostname'' ''fw3'')"
    "find_path [''serial''] ?e2 = None"
    "find_path [''hostname''] ?e3 = Some (leaf ''hostname'' ''fw1'')"
    "find_path [''serial''] ?e3 = Some (leaf ''serial'' ''S1'')"
    by (simp_all add: find_path_def node_def leaf_def)
  have texts: "text_of (leaf t x) = Some x" for t x
    by (simp add: leaf_def)
  have labels: "\<forall>e \<in> set (findall_path [''result'', ''devices'', ''entry''] ex_devices).
           find_path [''hostname''] e \<noteq> None \<and> find_path [''serial''] e \<noteq> None \<longrightarrow>
           make_selection ex_lib (text_of (the (find_path [''hostname''] e)))
             (text_of (the (find_path [''serial''] e))) \<noteq> None"
    unfolding entries by (simp add: fields texts m1 m2)
  have wn: "writable ex_lib (LogFoundDevices 2)"
    by code_simp
  have kept: "sort_key prompt
             (map (\<lambda>e. the (make_selection ex_lib (text_of (the (find_path [''hostname''] e)))
                            (text_of (the (find_path [''serial''] e)))))
                (filter (\<lambda>e. find_path [''hostname''] e \<noteq> None \<and>
                              find_path [''serial''] e \<noteq> None)
                   (findall_path [''result'', ''devices'', ''entry''] ex_devices))) =
     [\<lparr>prompt = ''fw1 (S1)'', sel_value = Some ''S1''\<rparr>,
      \<lparr>prompt = ''fw2 (S2)'', sel_value = Some ''S2''\<rparr>]"
    unfolding entries by (simp add: fields texts m1 m2)
  have count: "length (filter (\<lambda>e. find_path [''hostname''] e \<noteq> None \<and>
                              find_path [''serial''] e \<noteq> None)
                   (findall_path [''result'', ''devices'', ''entry''] ex_devices)) = 2"
    unfolding entries by (simp add: fields)
  note t = device_list_extraction
    [where lib = ex_lib and net = ?net and st = ex_tui and a = ex_auth,
     OF p wf c d s n labels]
  have r: "fst (fetch_devices ex_lib ?net ex_tui ex_auth) = Returned"
    using t [THEN conjunct2, THEN conjunct2] wn by (simp only: count if_True)
  show ?thesis
    using p wf c s n entries m1 m2 wn t [THEN conjunct1, unfolded kept]
      t [THEN conjunct2, THEN conjunct1] r
    by (intro conjI)
qed

text \<open>
  The label is the text after markup parsing. The manager lists the hostname \<^verbatim>\<open>[b]z[/b]\<close>
  with serial \<^verbatim>\<open>S1\<close>, then \<^verbatim>\<open>a\<close> with \<^verbatim>\<open>S2\<close>: the labels are \<^verbatim>\<open>z (S1)\<close> and
  \<^verbatim>\<open>a (S2)\<close>, and \<^verbatim>\<open>S2\<close> is shown first, although the string \<^verbatim>\<open>[b]z[/b] (S1)\<close> is the
  smaller of the two that the program builds.
\<close>

lemma device_list_label_rendered:
  "device_list
     (snd (fetch_devices ex_lib (net_by_serial [] (ok_response ex_devices_markup)) ex_tui
             ex_auth)) =
     [\<lparr>prompt = ''a (S2)'', sel_value = Some ''S2''\<rparr>,
      \<lparr>prompt = ''z (S1)'', sel_value = Some ''S1''\<rparr>] \<and>
   (''[b]z[/b] (S1)'' :: string) < ''a (S2)''"
  by code_simp

text \<open>
  Where the list shows the labels as they are written, and the characters of the hostnames
  all come after the space and those of the serials after the closing parenthesis
  (letters, digits, hyphen, dot, underscore do), the order of the labels is the order by
  hostname, then by serial.
\<close>

lemma append_separator_le:
  fixes c :: "'a::linorder"
  assumes "\<forall>x\<in>set xs. c < x" and "\<forall>y\<in>set ys. c < y"
  shows "xs @ c # r1 \<le> ys @ c # r2 \<longleftrightarrow> xs < ys \<or> (xs = ys \<and> r1 \<le> r2)"
  using assms
proof (induction xs arbitrary: ys)
  case Nil
  then show ?case by (cases ys) auto
next
  case (Cons x xs)
  show ?case
  proof (cases ys)
    case Nil
    then show ?thesis using Cons.prems by auto
  next
    case (Cons y ys')
    then show ?thesis using Cons.IH [of ys'] Cons.prems by auto
  qed
qed

lemma label_order_hostname_then_serial:
  assumes "make_selection lib (Some h1) (Some s1) =
             Some \<lparr>prompt = h1 @ '' ('' @ s1 @ '')'', sel_value = Some s1\<rparr>"
    and "make_selection lib (Some h2) (Some s2) =
             Some \<lparr>prompt = h2 @ '' ('' @ s2 @ '')'', sel_value = Some s2\<rparr>"
    and "\<forall>x\<in>set h1. CHR '' '' < x" and "\<forall>x\<in>set h2. CHR '' '' < x"
    and "\<forall>x\<in>set s1. CHR '')'' < x" and "\<forall>x\<in>set s2. CHR '')'' < x"
  shows "prompt (the (make_selection lib (Some h1) (Some s1))) \<le>
         prompt (the (make_selection lib (Some h2) (Some s2)))
         \<longleftrightarrow> h1 < h2 \<or> (h1 = h2 \<and> s1 \<le> s2)"
proof -
  have "s1 @ CHR '')'' # [] \<le> s2 @ CHR '')'' # [] \<longleftrightarrow>
          s1 < s2 \<or> (s1 = s2 \<and> ([]::string) \<le> [])"
    using assms(5,6) by (rule append_separator_le)
  then have s: "CHR ''('' # s1 @ '')'' \<le> CHR ''('' # s2 @ '')'' \<longleftrightarrow> s1 \<le> s2"
    by auto
  have "h1 @ CHR '' '' # (CHR ''('' # s1 @ '')'') \<le> h2 @ CHR '' '' # (CHR ''('' # s2 @ '')'')
        \<longleftrightarrow> h1 < h2 \<or> (h1 = h2 \<and> CHR ''('' # s1 @ '')'' \<le> CHR ''('' # s2 @ '')'')"
    using assms(3,4) by (rule append_separator_le)
  then show ?thesis
    using s by (simp add: assms(1,2))
qed

section \<open>C6: the indeterminate exits\<close>

lemma track_job_progress_loop_final:
  "fst (track_job_progress_loop lib st a serial job_id hostname rs) \<noteq> Polling \<Longrightarrow>
   track_job_progress_loop lib st a serial job_id hostname (rs @ later) =
     track_job_progress_loop lib st a serial job_id hostname rs"
  by (induction rs arbitrary: st) (auto split: prod.splits option.splits)

text \<open>
  C6, as stated, fails where the text of the error is not well-formed markup. The poll is
  answered by an HTTP 500 with the reason phrase \<^verbatim>\<open>[/b]\<close>, a failure at the transport
  layer: the write of the error line raises \<^verbatim>\<open>MarkupError\<close>, so the tracker ends, having
  sent its one request, without an error outcome in the log.
\<close>

theorem poll_error_markup_no_outcome:
  "checked ex_server_error =
     Inl (HTTPError 500 ''500 Server Error: [/b] for url: https://10.0.0.1/api/'') \<and>
   track_job_progress ex_lib ex_tui ex_auth (Some ''S1'') ''42''
     [ex_server_error, ok_response ex_fin_ok] =
     (Raised MarkupError,
      ex_tui\<lparr>requests_sent :=
               [\<lparr>url = ''https://10.0.0.1/api/'', ptype = ''op'',
                 cmd = ''<show><jobs><id>42</id></jobs></show>'',
                 target = Some (Some ''S1''), auth = (''admin'', ''secret'')\<rparr>]\<rparr>)"
  by code_simp

text \<open>
  C6, amended: when a status poll fails at the transport layer, the tracker makes one write
  of the error line and leaves the loop: whatever polls \<open>rs\<close> might have followed, one
  request has been sent and no other. When the response has no \<^verbatim>\<open>./result/job/status\<close>
  element it makes one write of the warning line and leaves the loop in the same way. Where
  the log accepts the line, the line is the one outcome of the tracker, which returns; a
  line that the log refuses ends the tracker as well, with the \<^verbatim>\<open>MarkupError\<close> and no
  outcome (\<open>write_last\<close> is both cases). And a tracker that has left its loop stays as it
  is: polls that come later change nothing.
\<close>

theorem indeterminate_exits_final:
  "(checked r = Inl e \<longrightarrow>
      track_job_progress lib st a serial job_id (r # rs) =
        write_last lib (LogJobCheckError job_id (fmt (hostname_of st serial)) e)
          (sent (job_request st a serial job_id) st)) \<and>
   (checked r = Inr resp \<and> document resp = Some root \<and>
    find_path [''result'', ''job'', ''status''] root = None \<longrightarrow>
      track_job_progress lib st a serial job_id (r # rs) =
        write_last lib (LogNoStatus job_id (fmt (hostname_of st serial)))
          (sent (job_request st a serial job_id) st)) \<and>
   (writable lib l \<longrightarrow> write_last lib l s = (Returned, logged l s)) \<and>
   (\<not> writable lib l \<longrightarrow> write_last lib l s = (Raised MarkupError, s)) \<and>
   (fst (track_job_progress lib st a serial job_id rs) \<noteq> Polling \<longrightarrow>
      track_job_progress lib st a serial job_id (rs @ later) =
        track_job_progress lib st a serial job_id rs)"
proof (intro conjI impI)
  assume "checked r = Inl e"
  then show "track_job_progress lib st a serial job_id (r # rs) =
        write_last lib (LogJobCheckError job_id (fmt (hostname_of st serial)) e)
          (sent (job_request st a serial job_id) st)"
    by (simp add: track_job_progress_def track_job_progress_body_def write_break_last Let_def)
next
  assume "checked r = Inr resp \<and> document resp = Some root \<and>
    find_path [''result'', ''job'', ''status''] root = None"
  then show "track_job_progress lib st a serial job_id (r # rs) =
        write_last lib (LogNoStatus job_id (fmt (hostname_of st serial)))
          (sent (job_request st a serial job_id) st)"
    by (simp add: track_job_progress_def track_job_progress_body_def write_break_last Let_def)
next
  assume "writable lib l"
  then show "write_last lib l s = (Returned, logged l s)"
    by (rule write_last_writable)
next
  assume "\<not> writable lib l"
  then show "write_last lib l s = (Raised MarkupError, s)"
    by (rule write_last_refused)
next
  assume "fst (track_job_progress lib st a serial job_id rs) \<noteq> Polling"
  then show "track_job_progress lib st a serial job_id (rs @ later) =
        track_job_progress lib st a serial job_id rs"
    by (simp add: track_job_progress_def track_job_progress_loop_final)
qed

theorem indeterminate_exits_final_witness:
  "checked ex_timeout = Inl (RequestException ''Read timed out.'') \<and>
   writable ex_lib (LogJobCheckError ''42'' ''fw1'' (RequestException ''Read timed out.'')) \<and>
   track_job_progress ex_lib ex_tui ex_auth (Some ''S1'') ''42''
       [ex_timeout, ok_response ex_active] =
     (Returned,
      logged (LogJobCheckError ''42'' ''fw1'' (RequestException ''Read timed out.''))
        (sent (job_request ex_tui ex_auth (Some ''S1'') ''42'') ex_tui)) \<and>
   checked (ok_response ex_no_status) =
     Inr \<lparr>status_code = 200, error_text = [], document = Some ex_no_status\<rparr> \<and>
   find_path [''result'', ''job'', ''status''] ex_no_status = None \<and>
   writable ex_lib (LogNoStatus ''42'' ''fw1'') \<and>
   track_job_progress ex_lib ex_tui ex_auth (Some ''S1'') ''42''
       [ok_response ex_no_status, ok_response ex_active] =
     (Returned,
      logged (LogNoStatus ''42'' ''fw1'')
        (sent (job_request ex_tui ex_auth (Some ''S1'') ''42'') ex_tui)) \<and>
   checked ex_server_error =
     Inl (HTTPError 500 ''500 Server Error: [/b] for url: https://10.0.0.1/api/'') \<and>
   \<not> writable ex_lib
       (LogJobCheckError ''42'' ''fw1''
          (HTTPError 500 ''500 Server Error: [/b] for url: https://10.0.0.1/api/'')) \<and>
   track_job_progress ex_lib ex_tui ex_auth (Some ''S1'') ''42''
       [ex_server_error, ok_response ex_active] =
     (Raised MarkupError, sent (job_request ex_tui ex_auth (Some ''S1'') ''42'') ex_tui) \<and>
   fst (track_job_progress ex_lib ex_tui ex_auth (Some ''S1'') ''42''
          [ok_response ex_pending, ok_response ex_fin_ok]) \<noteq> Polling \<and>
   track_job_progress ex_lib ex_tui ex_auth (Some ''S1'') ''42''
       ([ok_response ex_pending, ok_response ex_fin_ok] @
        [ok_response ex_active, ok_response ex_fin_fail]) =
     track_job_progress ex_lib ex_tui ex_auth (Some ''S1'') ''42''
       [ok_response ex_pending, ok_response ex_fin_ok]"
proof -
  let ?st1 = "sent (job_request ex_tui ex_auth (Some ''S1'') ''42'') ex_tui"
  have h1: "checked ex_timeout = Inl (RequestException ''Read timed out.'')"
    by (simp add: ex_timeout_def checked_def)
  have h2: "checked (ok_response ex_no_status) =
     Inr \<lparr>status_code = 200, error_text = [], document = Some ex_no_status\<rparr>"
    by (simp add: ok_response_def checked_def raise_for_status_def)
  have d2: "document \<lparr>status_code = 200, error_text = [], document = Some ex_no_status\<rparr> =
     Some ex_no_status"
    by simp
  have h3: "find_path [''result'', ''job'', ''status''] ex_no_status = None"
    by code_simp
  have h4: "fst (track_job_progress ex_lib ex_tui ex_auth (Some ''S1'') ''42''
          [ok_response ex_pending, ok_response ex_fin_ok]) \<noteq> Polling"
    by code_simp
  have we: "writable ex_lib
      (LogJobCheckError ''42'' ''fw1'' (RequestException ''Read timed out.''))"
    by code_simp
  have wn: "writable ex_lib (LogNoStatus ''42'' ''fw1'')"
    by code_simp
  have h5: "checked ex_server_error =
     Inl (HTTPError 500 ''500 Server Error: [/b] for url: https://10.0.0.1/api/'')"
    by (simp add: ex_server_error_def checked_def raise_for_status_def)
  have wr: "\<not> writable ex_lib
       (LogJobCheckError ''42'' ''fw1''
          (HTTPError 500 ''500 Server Error: [/b] for url: https://10.0.0.1/api/''))"
    by code_simp
  have n: "fmt (hostname_of ex_tui (Some ''S1'')) = ''fw1''"
    by (simp add: hostname_of_def ex_tui_def fmt_def)
  note t = indeterminate_exits_final
    [where lib = ex_lib and st = ex_tui and a = ex_auth and serial = "Some ''S1''"
       and job_id = "''42''", unfolded n]
  have w1: "track_job_progress ex_lib ex_tui ex_auth (Some ''S1'') ''42''
       [ex_timeout, ok_response ex_active] =
     (Returned,
      logged (LogJobCheckError ''42'' ''fw1'' (RequestException ''Read timed out.'')) ?st1)"
    using t [where r = ex_timeout and rs = "[ok_response ex_active]",
             THEN conjunct1, rule_format, OF h1]
      t [where s = ?st1, THEN conjunct2, THEN conjunct2, THEN conjunct1, rule_format, OF we]
    by simp
  have w2: "track_job_progress ex_lib ex_tui ex_auth (Some ''S1'') ''42''
       [ok_response ex_no_status, ok_response ex_active] =
     (Returned, logged (LogNoStatus ''42'' ''fw1'') ?st1)"
    using t [where r = "ok_response ex_no_status" and rs = "[ok_response ex_active]",
             THEN conjunct2, THEN conjunct1, rule_format, OF conjI [OF h2 conjI [OF d2 h3]]]
      t [where s = ?st1, THEN conjunct2, THEN conjunct2, THEN conjunct1, rule_format, OF wn]
    by simp
  have w4: "track_job_progress ex_lib ex_tui ex_auth (Some ''S1'') ''42''
       [ex_server_error, ok_response ex_active] = (Raised MarkupError, ?st1)"
    using t [where r = ex_server_error and rs = "[ok_response ex_active]",
             THEN conjunct1, rule_format, OF h5]
      t [where s = ?st1, THEN conjunct2, THEN conjunct2, THEN conjunct2, THEN conjunct1,
         rule_format, OF wr]
    by simp
  have w3: "track_job_progress ex_lib ex_tui ex_auth (Some ''S1'') ''42''
       ([ok_response ex_pending, ok_response ex_fin_ok] @
        [ok_response ex_active, ok_response ex_fin_fail]) =
     track_job_progress ex_lib ex_tui ex_auth (Some ''S1'') ''42''
       [ok_response ex_pending, ok_response ex_fin_ok]"
    using t [THEN conjunct2, THEN conjunct2, THEN conjunct2, THEN conjunct2, rule_format,
             OF h4] .
  show ?thesis
    using h1 we w1 h2 h3 wn w2 h5 wr w4 h4 w3 by (intro conjI)
qed

section \<open>C7: observations that keep the tracker polling\<close>

text \<open>
  C7, as stated, fails where the status is not well-formed markup. The first poll answers
  with the status \<^verbatim>\<open>[/b]\<close>, neither \<^verbatim>\<open>FIN\<close> nor \<^verbatim>\<open>ACT\<close>: the write of the line
  "is ongoing. Status: [/b]" raises \<^verbatim>\<open>MarkupError\<close>, nothing is logged, and the tracker
  ends without the second poll.
\<close>

theorem status_markup_ends_tracker:
  "track_job_progress ex_lib ex_tui ex_auth (Some ''S1'') ''42''
     [ok_response ex_bad_status, ok_response ex_fin_ok] =
     (Raised MarkupError,
      ex_tui\<lparr>requests_sent :=
               [\<lparr>url = ''https://10.0.0.1/api/'', ptype = ''op'',
                 cmd = ''<show><jobs><id>42</id></jobs></show>'',
                 target = Some (Some ''S1''), auth = (''admin'', ''secret'')\<rparr>]\<rparr>) \<and>
   find_path [''result'', ''job'', ''status''] ex_bad_status = Some (leaf ''status'' ''[/b]'')"
  by code_simp

text \<open>
  C7, amended: on a poll whose status is \<^verbatim>\<open>ACT\<close> and whose progress element has text \<open>p\<close>, the
  tracker logs one progress line carrying \<open>p\<close> as it is, where the log accepts the line, and
  goes round the loop again: its run on the polls \<open>r # rs\<close> is the run of the tracker on
  \<open>rs\<close> from the state reached, and with no further poll observed it is still \<open>Polling\<close>.
  On a poll whose status is \<^verbatim>\<open>ACT\<close> and that has no progress element, or one without text,
  it logs nothing and goes round the loop again. On a status that is neither \<^verbatim>\<open>FIN\<close> nor
  \<^verbatim>\<open>ACT\<close> it logs one line naming that status, where the log accepts the line, and goes
  round the loop again in the same way.
\<close>

theorem non_terminal_observations_continue:
  assumes "checked r = Inr resp" and "document resp = Some root"
    and "find_path [''result'', ''job'', ''status''] root = Some status_node"
  shows "(text_of status_node = Some ''ACT'' \<and>
          find_path [''result'', ''job'', ''progress''] root = Some progress_node \<and>
          text_of progress_node = Some p \<and> p \<noteq> [] \<and>
          writable lib (LogJobProgress job_id (fmt (hostname_of st serial)) p) \<longrightarrow>
            track_job_progress lib st a serial job_id (r # rs) =
              track_job_progress lib
                (logged (LogJobProgress job_id (fmt (hostname_of st serial)) p)
                   (sent (job_request st a serial job_id) st))
                a serial job_id rs \<and>
            track_job_progress lib st a serial job_id [r] =
              (Polling,
               logged (LogJobProgress job_id (fmt (hostname_of st serial)) p)
                 (sent (job_request st a serial job_id) st))) \<and>
         (text_of status_node = Some ''ACT'' \<and>
          (find_path [''result'', ''job'', ''progress''] root = None \<or>
           (\<exists>progress_node.
              find_path [''result'', ''job'', ''progress''] root = Some progress_node \<and>
              (text_of progress_node = None \<or> text_of progress_node = Some []))) \<longrightarrow>
            track_job_progress lib st a serial job_id (r # rs) =
              track_job_progress lib (sent (job_request st a serial job_id) st)
                a serial job_id rs \<and>
            track_job_progress lib st a serial job_id [r] =
              (Polling, sent (job_request st a serial job_id) st)) \<and>
         (text_of status_node \<noteq> Some ''FIN'' \<and> text_of status_node \<noteq> Some ''ACT'' \<and>
          writable lib
            (LogJobOngoing job_id (fmt (hostname_of st serial)) (fmt (text_of status_node)))
          \<longrightarrow>
            track_job_progress lib st a serial job_id (r # rs) =
              track_job_progress lib
                (logged
                   (LogJobOngoing job_id (fmt (hostname_of st serial)) (fmt (text_of status_node)))
                   (sent (job_request st a serial job_id) st))
                a serial job_id rs \<and>
            track_job_progress lib st a serial job_id [r] =
              (Polling,
               logged
                 (LogJobOngoing job_id (fmt (hostname_of st serial)) (fmt (text_of status_node)))
                 (sent (job_request st a serial job_id) st)))"
  using assms
  by (auto simp: track_job_progress_def track_job_progress_body_def Let_def truthy_def fmt_def
        write_next_writable
      simp del: findall_path.simps)

theorem non_terminal_observations_continue_witness:
  "find_path [''result'', ''job'', ''status''] ex_active = Some (leaf ''status'' ''ACT'') \<and>
   find_path [''result'', ''job'', ''progress''] ex_active = Some (leaf ''progress'' ''40'') \<and>
   writable ex_lib (LogJobProgress ''42'' ''fw1'' ''40'') \<and>
   track_job_progress ex_lib ex_tui ex_auth (Some ''S1'') ''42''
       [ok_response ex_active, ok_response ex_fin_ok] =
     track_job_progress ex_lib
       (logged (LogJobProgress ''42'' ''fw1'' ''40'')
          (sent (job_request ex_tui ex_auth (Some ''S1'') ''42'') ex_tui))
       ex_auth (Some ''S1'') ''42'' [ok_response ex_fin_ok] \<and>
   track_job_progress ex_lib ex_tui ex_auth (Some ''S1'') ''42'' [ok_response ex_active] =
     (Polling,
      logged (LogJobProgress ''42'' ''fw1'' ''40'')
        (sent (job_request ex_tui ex_auth (Some ''S1'') ''42'') ex_tui)) \<and>
   find_path [''result'', ''job'', ''status''] ex_active_no_progress =
     Some (leaf ''status'' ''ACT'') \<and>
   find_path [''result'', ''job'', ''progress''] ex_active_no_progress = None \<and>
   track_job_progress ex_lib ex_tui ex_auth (Some ''S1'') ''42''
       [ok_response ex_active_no_progress, ok_response ex_fin_ok] =
     track_job_progress ex_lib (sent (job_request ex_tui ex_auth (Some ''S1'') ''42'') ex_tui)
       ex_auth (Some ''S1'') ''42'' [ok_response ex_fin_ok] \<and>
   track_job_progress ex_lib ex_tui ex_auth (Some ''S1'') ''42''
       [ok_response ex_active_no_progress] =
     (Polling, sent (job_request ex_tui ex_auth (Some ''S1'') ''42'') ex_tui) \<and>
   find_path [''result'', ''job'', ''status''] ex_pending = Some (leaf ''status'' ''PEND'') \<and>
   writable ex_lib (LogJobOngoing ''42'' ''fw1'' ''PEND'') \<and>
   track_job_progress ex_lib ex_tui ex_auth (Some ''S1'') ''42''
       [ok_response ex_pending, ok_response ex_fin_ok] =
     track_job_progress ex_lib
       (logged (LogJobOngoing ''42'' ''fw1'' ''PEND'')
          (sent (job_request ex_tui ex_auth (Some ''S1'') ''42'') ex_tui))
       ex_auth (Some ''S1'') ''42'' [ok_response ex_fin_ok] \<and>
   track_job_progress ex_lib ex_tui ex_auth (Some ''S1'') ''42'' [ok_response ex_pending] =
     (Polling,
      logged (LogJobOngoing ''42'' ''fw1'' ''PEND'')
        (sent (job_request ex_tui ex_auth (Some ''S1'') ''42'') ex_tui))"
proof -
  have c: "\<And>root. checked (ok_response root) =
       Inr \<lparr>status_code = 200, error_text = [], document = Some root\<rparr>"
    by (simp add: ok_response_def checked_def raise_for_status_def)
  have d: "\<And>root. document \<lparr>status_code = 200, error_text = [], document = Some root\<rparr> =
       Some root"
    by simp
  have a3: "find_path [''result'', ''job'', ''status''] ex_active = Some (leaf ''status'' ''ACT'')"
    by code_simp
  have a4: "find_path [''result'', ''job'', ''progress''] ex_active =
      Some (leaf ''progress'' ''40'')"
    by code_simp
  have aw: "writable ex_lib (LogJobProgress ''42'' ''fw1'' ''40'')"
    by code_simp
  have a5: "text_of (leaf ''status'' ''ACT'') = Some ''ACT'' \<and>
            find_path [''result'', ''job'', ''progress''] ex_active =
              Some (leaf ''progress'' ''40'') \<and>
            text_of (leaf ''progress'' ''40'') = Some ''40'' \<and> ''40'' \<noteq> [] \<and>
            writable ex_lib (LogJobProgress ''42'' ''fw1'' ''40'')"
    using a4 aw by (simp add: leaf_def)
  have b3: "find_path [''result'', ''job'', ''status''] ex_active_no_progress =
      Some (leaf ''status'' ''ACT'')"
    by code_simp
  have b4: "find_path [''result'', ''job'', ''progress''] ex_active_no_progress = None"
    by code_simp
  have b5: "text_of (leaf ''status'' ''ACT'') = Some ''ACT'' \<and>
            (find_path [''result'', ''job'', ''progress''] ex_active_no_progress = None \<or>
             (\<exists>progress_node.
                find_path [''result'', ''job'', ''progress''] ex_active_no_progress =
                  Some progress_node \<and>
                (text_of progress_node = None \<or> text_of progress_node = Some [])))"
    using b4 by (simp add: leaf_def)
  have p3: "find_path [''result'', ''job'', ''status''] ex_pending =
      Some (leaf ''status'' ''PEND'')"
    by code_simp
  have s: "fmt (text_of (leaf ''status'' ''PEND'')) = ''PEND''"
    by (simp add: leaf_def fmt_def)
  have pw: "writable ex_lib (LogJobOngoing ''42'' ''fw1'' ''PEND'')"
    by code_simp
  have p5: "text_of (leaf ''status'' ''PEND'') \<noteq> Some ''FIN'' \<and>
            text_of (leaf ''status'' ''PEND'') \<noteq> Some ''ACT'' \<and>
            writable ex_lib
              (LogJobOngoing ''42'' ''fw1'' (fmt (text_of (leaf ''status'' ''PEND''))))"
    using pw by (simp add: s) (simp add: leaf_def)
  have n: "fmt (hostname_of ex_tui (Some ''S1'')) = ''fw1''"
    by (simp add: hostname_of_def ex_tui_def fmt_def)
  have w1: "track_job_progress ex_lib ex_tui ex_auth (Some ''S1'') ''42''
       [ok_response ex_active, ok_response ex_fin_ok] =
     track_job_progress ex_lib
       (logged (LogJobProgress ''42'' ''fw1'' ''40'')
          (sent (job_request ex_tui ex_auth (Some ''S1'') ''42'') ex_tui))
       ex_auth (Some ''S1'') ''42'' [ok_response ex_fin_ok] \<and>
   track_job_progress ex_lib ex_tui ex_auth (Some ''S1'') ''42'' [ok_response ex_active] =
     (Polling,
      logged (LogJobProgress ''42'' ''fw1'' ''40'')
        (sent (job_request ex_tui ex_auth (Some ''S1'') ''42'') ex_tui))"
    using non_terminal_observations_continue
      [where lib = ex_lib and st = ex_tui and a = ex_auth and serial = "Some ''S1''"
         and job_id = "''42''" and r = "ok_response ex_active"
         and rs = "[ok_response ex_fin_ok]" and p = "''40''"
         and progress_node = "leaf ''progress'' ''40''",
       OF c d a3, unfolded n, THEN conjunct1, rule_format, OF a5] .
  have w2: "track_job_progress ex_lib ex_tui ex_auth (Some ''S1'') ''42''
       [ok_response ex_active_no_progress, ok_response ex_fin_ok] =
     track_job_progress ex_lib (sent (job_request ex_tui ex_auth (Some ''S1'') ''42'') ex_tui)
       ex_auth (Some ''S1'') ''42'' [ok_response ex_fin_ok] \<and>
   track_job_progress ex_lib ex_tui ex_auth (Some ''S1'') ''42''
       [ok_response ex_active_no_progress] =
     (Polling, sent (job_request ex_tui ex_auth (Some ''S1'') ''42'') ex_tui)"
    using non_terminal_observations_continue
      [where lib = ex_lib and st = ex_tui and a = ex_auth and serial = "Some ''S1''"
         and job_id = "''42''" and r = "ok_response ex_active_no_progress"
         and rs = "[ok_response ex_fin_ok]",
       OF c d b3, unfolded n, THEN conjunct2, THEN conjunct1, rule_format, OF b5] .
  have w3: "track_job_progress ex_lib ex_tui ex_auth (Some ''S1'') ''42''
       [ok_response ex_pending, ok_response ex_fin_ok] =
     track_job_progress ex_lib
       (logged (LogJobOngoing ''42'' ''fw1'' ''PEND'')
          (sent (job_request ex_tui ex_auth (Some ''S1'') ''42'') ex_tui))
       ex_auth (Some ''S1'') ''42'' [ok_response ex_fin_ok] \<and>
   track_job_progress ex_lib ex_tui ex_auth (Some ''S1'') ''42'' [ok_response ex_pending] =
     (Polling,
      logged (LogJobOngoing ''42'' ''fw1'' ''PEND'')
        (sent (job_request ex_tui ex_auth (Some ''S1'') ''42'') ex_tui))"
    using non_terminal_observations_continue
      [where lib = ex_lib and st = ex_tui and a = ex_auth and serial = "Some ''S1''"
         and job_id = "''42''" and r = "ok_response ex_pending"
         and rs = "[ok_response ex_fin_ok]",
       OF c d p3, unfolded n, THEN conjunct2, THEN conjunct2, rule_format, OF p5]
    by (simp only: s)
  show ?thesis
    using a3 a4 aw w1 [THEN conjunct1] w1 [THEN conjunct2] b3 b4
      w2 [THEN conjunct1] w2 [THEN conjunct2] p3 pw w3 [THEN conjunct1] w3 [THEN conjunct2]
    by (intro conjI)
qed

section \<open>C9: the version check and the selection\<close>

lemma version_check_in_catalogue:
  "map_of URL_CHOICES ''Software Version Check'' =
     Some \<lparr>cmd_template =
             ''<request><system><software><check></check></software></system></request>'',
           generates_job = None\<rparr>"
  by (simp add: URL_CHOICES_def)

text \<open>
  C9, as stated, fails in its last clause: error outcomes are emitted with a selection that
  is not empty. Two devices are selected. When the request times out, the check logs the
  connection error; when the manager answers with status \<^verbatim>\<open>error\<close>, it logs the API error.
\<close>

theorem version_check_errors_with_selection:
  "selected ex_tui = [Some ''S1'', Some ''S2''] \<and>
   run_version_check ex_lib (net_by_serial [] ex_timeout) ex_tui ex_auth =
     (Returned,
      ex_tui\<lparr>output_log :=
               [LogRunningCheck ''fw1'',
                LogConnectionError (RequestException ''Read timed out.'')],
             requests_sent :=
               [\<lparr>url = ''https://10.0.0.1/api/'', ptype = ''op'',
                 cmd =
                   ''<request><system><software><check></check></software></system></request>'',
                 target = Some (Some ''S1''), auth = (''admin'', ''secret'')\<rparr>]\<rparr>) \<and>
   run_version_check ex_lib (net_by_serial [] (ok_response ex_auth_error)) ex_tui ex_auth =
     (Returned,
      ex_tui\<lparr>output_log :=
               [LogRunningCheck ''fw1'', LogApiError ''Authentication failed''],
             requests_sent :=
               [\<lparr>url = ''https://10.0.0.1/api/'', ptype = ''op'',
                 cmd =
                   ''<request><system><software><check></check></software></system></request>'',
                 target = Some (Some ''S1''), auth = (''admin'', ''secret'')\<rparr>]\<rparr>)"
  by code_simp

text \<open>
  C9, amended: with nothing selected, the version check writes the error "Please select one
  device" and sends nothing. With the selection \<open>serial # others\<close> it does exactly what it
  does when \<open>serial\<close> alone is selected: the same exit, log, requests and version dropdown,
  so no line is logged for \<open>others\<close>; and it sends one request, whose target is \<open>serial\<close>,
  once the log has accepted the line that announces the check (none when that write
  raises \<^verbatim>\<open>MarkupError\<close>). The selection error is logged only when the selection is empty.
  Other error outcomes are emitted with a selection that is not empty: a request that fails
  at the transport layer is answered by the connection error, and a response with the status
  \<^verbatim>\<open>error\<close> and a \<^verbatim>\<open>msg\<close> element by the API error.
\<close>

theorem version_check_first_selected:
  "(selected st = [] \<longrightarrow>
      run_version_check lib net st a = write_last lib LogSelectOneDevice st) \<and>
   (selected st = serial # others \<longrightarrow>
      run_version_check lib net st a =
        (case run_version_check lib net (st\<lparr>selected := [serial]\<rparr>) a of
           (x, st') \<Rightarrow> (x, st'\<lparr>selected := serial # others\<rparr>)) \<and>
      map target (requests_sent (snd (run_version_check lib net st a))) =
        (if writable lib (LogRunningCheck (fmt (hostname_of st serial)))
         then map target (requests_sent st) @ [Some serial]
         else map target (requests_sent st))) \<and>
   (LogSelectOneDevice \<notin> set (output_log st) \<longrightarrow>
      (LogSelectOneDevice \<in> set (output_log (snd (run_version_check lib net st a)))
         \<longleftrightarrow> selected st = [] \<and> writable lib LogSelectOneDevice)) \<and>
   (selected st = serial # others \<and>
    writable lib (LogRunningCheck (fmt (hostname_of st serial))) \<and>
    map_of URL_CHOICES ''Software Version Check'' = Some info \<and>
    checked (net (version_request st a info serial)) = Inl e \<longrightarrow>
      run_version_check lib net st a =
        write_last lib (LogConnectionError e)
          (sent (version_request st a info serial)
             (logged (LogRunningCheck (fmt (hostname_of st serial))) st))) \<and>
   (selected st = serial # others \<and>
    writable lib (LogRunningCheck (fmt (hostname_of st serial))) \<and>
    map_of URL_CHOICES ''Software Version Check'' = Some info \<and>
    checked (net (version_request st a info serial)) = Inr resp \<and>
    document resp = Some root \<and> map_of (attrib root) ''status'' = Some ''error'' \<and>
    find_descendant ''msg'' root = Some msg_node \<longrightarrow>
      run_version_check lib net st a =
        write_last lib (LogApiError (fmt (text_of msg_node)))
          (sent (version_request st a info serial)
             (logged (LogRunningCheck (fmt (hostname_of st serial))) st)))"
proof (intro conjI impI)
  assume "selected st = []"
  then show "run_version_check lib net st a = write_last lib LogSelectOneDevice st"
    by (simp add: run_version_check_def)
next
  assume s: "selected st = serial # others"
  show "run_version_check lib net st a =
        (case run_version_check lib net (st\<lparr>selected := [serial]\<rparr>) a of
           (x, st') \<Rightarrow> (x, st'\<lparr>selected := serial # others\<rparr>))"
    using s
    by (simp add: run_version_check_def version_check_in_catalogue Let_def log_write_def
          write_last_def logged_def writable_def
          sent_def hostname_of_def version_request_def base_url_def
        del: findall_path.simps
        split: sum.splits option.splits)
  show "map target (requests_sent (snd (run_version_check lib net st a))) =
        (if writable lib (LogRunningCheck (fmt (hostname_of st serial)))
         then map target (requests_sent st) @ [Some serial]
         else map target (requests_sent st))"
    using s
    by (simp add: run_version_check_def version_check_in_catalogue Let_def log_write_def
          write_last_def logged_def
          sent_def version_request_def
        del: findall_path.simps
        split: sum.splits option.splits)
next
  assume "LogSelectOneDevice \<notin> set (output_log st)"
  then show "LogSelectOneDevice \<in> set (output_log (snd (run_version_check lib net st a)))
         \<longleftrightarrow> selected st = [] \<and> writable lib LogSelectOneDevice"
    by (cases "selected st")
      (simp_all add: run_version_check_def version_check_in_catalogue Let_def log_write_def
        write_last_def logged_def
        sent_def
        del: findall_path.simps
        split: sum.splits option.splits)
next
  assume "selected st = serial # others \<and>
    writable lib (LogRunningCheck (fmt (hostname_of st serial))) \<and>
    map_of URL_CHOICES ''Software Version Check'' = Some info \<and>
    checked (net (version_request st a info serial)) = Inl e"
  then show "run_version_check lib net st a =
        write_last lib (LogConnectionError e)
          (sent (version_request st a info serial)
             (logged (LogRunningCheck (fmt (hostname_of st serial))) st))"
    by (simp add: run_version_check_def Let_def version_request_def base_url_def)
next
  assume "selected st = serial # others \<and>
    writable lib (LogRunningCheck (fmt (hostname_of st serial))) \<and>
    map_of URL_CHOICES ''Software Version Check'' = Some info \<and>
    checked (net (version_request st a info serial)) = Inr resp \<and>
    document resp = Some root \<and> map_of (attrib root) ''status'' = Some ''error'' \<and>
    find_descendant ''msg'' root = Some msg_node"
  then show "run_version_check lib net st a =
        write_last lib (LogApiError (fmt (text_of msg_node)))
          (sent (version_request st a info serial)
             (logged (LogRunningCheck (fmt (hostname_of st serial))) st))"
    by (simp add: run_version_check_def Let_def version_request_def base_url_def)
qed

theorem version_check_first_selected_witness:
  "selected (ex_tui\<lparr>selected := []\<rparr>) = [] \<and>
   writable ex_lib LogSelectOneDevice \<and>
   run_version_check ex_lib (net_by_serial [(Some ''S1'', ok_response ex_versions)] ex_timeout)
       (ex_tui\<lparr>selected := []\<rparr>) ex_auth =
     (Returned, logged LogSelectOneDevice (ex_tui\<lparr>selected := []\<rparr>)) \<and>
   selected ex_tui = Some ''S1'' # [Some ''S2''] \<and>
   writable ex_lib (LogRunningCheck ''fw1'') \<and>
   run_version_check ex_lib (net_by_serial [(Some ''S1'', ok_response ex_versions)] ex_timeout)
       ex_tui ex_auth =
     (case run_version_check ex_lib
             (net_by_serial [(Some ''S1'', ok_response ex_versions)] ex_timeout)
             (ex_tui\<lparr>selected := [Some ''S1'']\<rparr>) ex_auth of
        (x, st') \<Rightarrow> (x, st'\<lparr>selected := Some ''S1'' # [Some ''S2'']\<rparr>)) \<and>
   map target
     (requests_sent
        (snd (run_version_check ex_lib
                (net_by_serial [(Some ''S1'', ok_response ex_versions)] ex_timeout) ex_tui
                ex_auth))) =
     map target (requests_sent ex_tui) @ [Some (Some ''S1'')] \<and>
   LogSelectOneDevice \<notin> set (output_log ex_tui) \<and>
   LogSelectOneDevice \<notin>
      set (output_log
             (snd (run_version_check ex_lib
                     (net_by_serial [(Some ''S1'', ok_response ex_versions)] ex_timeout)
                     ex_tui ex_auth))) \<and>
   checked (net_by_serial [] ex_timeout
              (version_request ex_tui ex_auth
                 \<lparr>cmd_template =
                    ''<request><system><software><check></check></software></system></request>'',
                  generates_job = None\<rparr>
                 (Some ''S1''))) =
     Inl (RequestException ''Read timed out.'') \<and>
   writable ex_lib (LogConnectionError (RequestException ''Read timed out.'')) \<and>
   run_version_check ex_lib (net_by_serial [] ex_timeout) ex_tui ex_auth =
     (Returned,
      logged (LogConnectionError (RequestException ''Read timed out.''))
        (sent (version_request ex_tui ex_auth
                 \<lparr>cmd_template =
                    ''<request><system><software><check></check></software></system></request>'',
                  generates_job = None\<rparr>
                 (Some ''S1''))
           (logged (LogRunningCheck ''fw1'') ex_tui))) \<and>
   find_descendant ''msg'' ex_auth_error = Some (leaf ''msg'' ''Authentication failed'') \<and>
   writable ex_lib (LogApiError ''Authentication failed'') \<and>
   run_version_check ex_lib (net_by_serial [] (ok_response ex_auth_error)) ex_tui ex_auth =
     (Returned,
      logged (LogApiError ''Authentication failed'')
        (sent (version_request ex_tui ex_auth
                 \<lparr>cmd_template =
                    ''<request><system><software><check></check></software></system></request>'',
                  generates_job = None\<rparr>
                 (Some ''S1''))
           (logged (LogRunningCheck ''fw1'') ex_tui)))"
proof -
  let ?net = "net_by_serial [(Some ''S1'', ok_response ex_versions)] ex_timeout"
  let ?info = "\<lparr>cmd_template =
                    ''<request><system><software><check></check></software></system></request>'',
                  generates_job = None\<rparr>"
  let ?req = "version_request ex_tui ex_auth ?info (Some ''S1'')"
  have e: "selected (ex_tui\<lparr>selected := []\<rparr>) = []"
    by simp
  have s: "selected ex_tui = Some ''S1'' # [Some ''S2'']"
    by (simp add: ex_tui_def)
  have l: "LogSelectOneDevice \<notin> set (output_log ex_tui)"
    by (simp add: ex_tui_def)
  have n: "fmt (hostname_of ex_tui (Some ''S1'')) = ''fw1''"
    by (simp add: hostname_of_def ex_tui_def fmt_def)
  have ws: "writable ex_lib LogSelectOneDevice"
    by code_simp
  have wr: "writable ex_lib (LogRunningCheck ''fw1'')"
    by code_simp
  have wc: "writable ex_lib (LogConnectionError (RequestException ''Read timed out.''))"
    by code_simp
  have wa: "writable ex_lib (LogApiError ''Authentication failed'')"
    by code_simp
  have c1: "checked (net_by_serial [] ex_timeout ?req) =
      Inl (RequestException ''Read timed out.'')"
    by (simp add: net_by_serial_def version_request_def ex_timeout_def checked_def)
  have c2: "checked (net_by_serial [] (ok_response ex_auth_error) ?req) =
      Inr \<lparr>status_code = 200, error_text = [], document = Some ex_auth_error\<rparr>"
    by (simp add: net_by_serial_def version_request_def ok_response_def checked_def
          raise_for_status_def)
  have d2: "document \<lparr>status_code = 200, error_text = [], document = Some ex_auth_error\<rparr> =
      Some ex_auth_error"
    by simp
  have a2: "map_of (attrib ex_auth_error) ''status'' = Some ''error''"
    by code_simp
  have m2: "find_descendant ''msg'' ex_auth_error = Some (leaf ''msg'' ''Authentication failed'')"
    by code_simp
  have f2: "fmt (text_of (leaf ''msg'' ''Authentication failed'')) = ''Authentication failed''"
    by (simp add: leaf_def fmt_def)
  have t1: "run_version_check ex_lib ?net (ex_tui\<lparr>selected := []\<rparr>) ex_auth =
     (Returned, logged LogSelectOneDevice (ex_tui\<lparr>selected := []\<rparr>))"
    using version_check_first_selected
      [where lib = ex_lib and net = ?net and a = ex_auth and st = "ex_tui\<lparr>selected := []\<rparr>",
       THEN conjunct1, rule_format, OF e]
    by (simp only: write_last_writable [OF ws])
  note t2 = version_check_first_selected
    [where lib = ex_lib and net = ?net and a = ex_auth and st = ex_tui,
     THEN conjunct2, THEN conjunct1, rule_format, OF s, unfolded n]
  have t2b: "map target (requests_sent (snd (run_version_check ex_lib ?net ex_tui ex_auth))) =
     map target (requests_sent ex_tui) @ [Some (Some ''S1'')]"
    using t2 [THEN conjunct2] wr by (simp only: if_True)
  have t3: "LogSelectOneDevice \<notin>
      set (output_log (snd (run_version_check ex_lib ?net ex_tui ex_auth)))"
    using version_check_first_selected
      [where lib = ex_lib and net = ?net and a = ex_auth and st = ex_tui,
       THEN conjunct2, THEN conjunct2, THEN conjunct1, rule_format, OF l] s
    by simp
  have t4: "run_version_check ex_lib (net_by_serial [] ex_timeout) ex_tui ex_auth =
     (Returned,
      logged (LogConnectionError (RequestException ''Read timed out.''))
        (sent ?req (logged (LogRunningCheck ''fw1'') ex_tui)))"
    using version_check_first_selected
      [where lib = ex_lib and net = "net_by_serial [] ex_timeout" and a = ex_auth
         and st = ex_tui and serial = "Some ''S1''" and others = "[Some ''S2'']"
         and info = ?info and e = "RequestException ''Read timed out.''",
       unfolded n,
       THEN conjunct2, THEN conjunct2, THEN conjunct2, THEN conjunct1, rule_format,
       OF conjI [OF s conjI [OF wr conjI [OF version_check_in_catalogue c1]]]]
    by (simp only: write_last_writable [OF wc])
  have t5: "run_version_check ex_lib (net_by_serial [] (ok_response ex_auth_error)) ex_tui
       ex_auth =
     (Returned,
      logged (LogApiError ''Authentication failed'')
        (sent ?req (logged (LogRunningCheck ''fw1'') ex_tui)))"
    using version_check_first_selected
      [where lib = ex_lib and net = "net_by_serial [] (ok_response ex_auth_error)"
         and a = ex_auth and st = ex_tui and serial = "Some ''S1''"
         and others = "[Some ''S2'']" and info = ?info
         and msg_node = "leaf ''msg'' ''Authentication failed''",
       unfolded n,
       THEN conjunct2, THEN conjunct2, THEN conjunct2, THEN conjunct2, rule_format,
       OF conjI [OF s conjI [OF wr conjI [OF version_check_in_catalogue
            conjI [OF c2 conjI [OF d2 conjI [OF a2 m2]]]]]]]
    by (simp only: f2 write_last_writable [OF wa])
  show ?thesis
    using e ws t1 s wr t2 [THEN conjunct1] t2b l t3 c1 wc t4 m2 wa t5
    by (intro conjI)
qed

section \<open>C10: the guard on empty credentials\<close>

text \<open>
  C10: with an empty username or an empty password, a press of "Fetch Connected Devices" is
  always answered by one write of the error "Username and Password are required", after
  which the handler returns; it starts no worker. A press of any other button is answered
  in that way only when the serial-to-hostname table is not empty. When the table is empty
  the press passes the guard and the handler goes on as it does with credentials: the
  version check and the reboot start their worker, and download and install start theirs
  with the version chosen in the dropdown (with no version chosen they write the error
  "select a version first"). A line that the log accepts is in the log when the handler
  returns.
\<close>

theorem empty_credential_guard:
  assumes "username st = [] \<or> password st = []"
  shows "handle_button_press lib st Fetch = write_last lib LogCredentialsRequired st \<and>
         workers (snd (handle_button_press lib st Fetch)) = workers st \<and>
         (b \<noteq> Fetch \<and> serial_to_hostname st \<noteq> [] \<longrightarrow>
            handle_button_press lib st b = write_last lib LogCredentialsRequired st \<and>
            workers (snd (handle_button_press lib st b)) = workers st) \<and>
         (b \<noteq> Fetch \<and> serial_to_hostname st = [] \<longrightarrow>
            handle_button_press lib st b =
              (if b = RunCheckVersions then
                 (Returned, run_worker (RunVersionCheck (username st, password st)) st)
               else if b = RunReboot then
                 (Returned,
                  run_worker (RunExecuteCommand (username st, password st) ''Reboot'' None) st)
               else
                 (case version_value st of
                    BLANK \<Rightarrow> write_last lib LogSelectVersion st
                  | Chosen version \<Rightarrow>
                      (Returned,
                       run_worker
                         (RunExecuteCommand (username st, password st) (command_name_of b)
                            version) st)))) \<and>
         (writable lib l \<longrightarrow> write_last lib l s = (Returned, logged l s)) \<and>
         (\<not> writable lib l \<longrightarrow> write_last lib l s = (Raised MarkupError, s))"
  using assms
  by (cases b)
    (auto simp: handle_button_press_def handle_button_press_actions_def command_name_of_def
      URL_CHOICES_def write_last_def log_write_def logged_def split: select_value.splits)

theorem empty_credential_guard_witness:
  "(username (ex_tui\<lparr>password := []\<rparr>) = [] \<or> password (ex_tui\<lparr>password := []\<rparr>) = []) \<and>
   writable ex_lib LogCredentialsRequired \<and>
   handle_button_press ex_lib (ex_tui\<lparr>password := []\<rparr>) Fetch =
     (Returned, logged LogCredentialsRequired (ex_tui\<lparr>password := []\<rparr>)) \<and>
   RunReboot \<noteq> Fetch \<and> serial_to_hostname (ex_tui\<lparr>password := []\<rparr>) \<noteq> [] \<and>
   handle_button_press ex_lib (ex_tui\<lparr>password := []\<rparr>) RunReboot =
     (Returned, logged LogCredentialsRequired (ex_tui\<lparr>password := []\<rparr>)) \<and>
   (username (ex_tui\<lparr>password := [], serial_to_hostname := []\<rparr>) = [] \<or>
    password (ex_tui\<lparr>password := [], serial_to_hostname := []\<rparr>) = []) \<and>
   serial_to_hostname (ex_tui\<lparr>password := [], serial_to_hostname := []\<rparr>) = [] \<and>
   handle_button_press ex_lib (ex_tui\<lparr>password := [], serial_to_hostname := []\<rparr>) RunReboot =
     (Returned,
      run_worker (RunExecuteCommand (''admin'', []) ''Reboot'' None)
        (ex_tui\<lparr>password := [], serial_to_hostname := []\<rparr>)) \<and>
   RunDownload \<noteq> Fetch \<and>
   handle_button_press ex_lib (ex_tui\<lparr>password := [], serial_to_hostname := []\<rparr>)
       RunDownload =
     (Returned,
      run_worker (RunExecuteCommand (''admin'', []) ''Download Version'' (Some ''10.2.3''))
        (ex_tui\<lparr>password := [], serial_to_hostname := []\<rparr>))"
proof -
  let ?st1 = "ex_tui\<lparr>password := []\<rparr>"
  let ?st2 = "ex_tui\<lparr>password := [], serial_to_hostname := []\<rparr>"
  have h1: "username ?st1 = [] \<or> password ?st1 = []"
    by simp
  have h2: "username ?st2 = [] \<or> password ?st2 = []"
    by simp
  have b1: "RunReboot \<noteq> Fetch" and b2: "RunDownload \<noteq> Fetch"
    by simp_all
  have d1: "serial_to_hostname ?st1 \<noteq> []"
    by (simp add: ex_tui_def)
  have d2: "serial_to_hostname ?st2 = []"
    by simp
  have wc: "writable ex_lib LogCredentialsRequired"
    by code_simp
  have w1: "handle_button_press ex_lib ?st1 Fetch = (Returned, logged LogCredentialsRequired ?st1)"
    using empty_credential_guard [where lib = ex_lib, OF h1, THEN conjunct1]
      empty_credential_guard
        [where lib = ex_lib and s = ?st1, OF h1, THEN conjunct2, THEN conjunct2,
         THEN conjunct2, THEN conjunct2, THEN conjunct1, rule_format, OF wc]
    by simp
  have w2: "handle_button_press ex_lib ?st1 RunReboot =
      (Returned, logged LogCredentialsRequired ?st1)"
    using empty_credential_guard
        [where lib = ex_lib, OF h1, THEN conjunct2, THEN conjunct2, THEN conjunct1,
         rule_format, OF conjI [OF b1 d1], THEN conjunct1]
      empty_credential_guard
        [where lib = ex_lib and s = ?st1, OF h1, THEN conjunct2, THEN conjunct2,
         THEN conjunct2, THEN conjunct2, THEN conjunct1, rule_format, OF wc]
    by simp
  have w3: "handle_button_press ex_lib ?st2 RunReboot =
      (Returned, run_worker (RunExecuteCommand (''admin'', []) ''Reboot'' None) ?st2)"
    using empty_credential_guard
        [where lib = ex_lib, OF h2, THEN conjunct2, THEN conjunct2, THEN conjunct2,
         THEN conjunct1, rule_format, OF conjI [OF b1 d2]]
    by (simp add: ex_tui_def)
  have w4: "handle_button_press ex_lib ?st2 RunDownload =
      (Returned,
       run_worker (RunExecuteCommand (''admin'', []) ''Download Version'' (Some ''10.2.3''))
         ?st2)"
    using empty_credential_guard
        [where lib = ex_lib, OF h2, THEN conjunct2, THEN conjunct2, THEN conjunct2,
         THEN conjunct1, rule_format, OF conjI [OF b2 d2]]
    by (simp add: ex_tui_def command_name_of_def)
  show ?thesis
    using h1 wc w1 b1 d1 w2 h2 d2 w3 b2 w4 by (intro conjI)
qed

end
